theory Spec2Isabelle
  imports Main "HOL-Library.Sublist"
begin

section \<open>Python strings\<close>

text \<open>
  A Python \<open>str\<close> is modelled as a \<open>string\<close> whose characters are the code points
  below 256. \<open>str.isspace\<close>, \<open>str.strip\<close> and \<open>str.lower\<close> are written out for
  that range; \<open>needle in haystack\<close> is the substring test.
\<close>

definition is_space :: "char \<Rightarrow> bool" where
  "is_space c =
     (let n = (of_char c :: nat)
      in (9 \<le> n \<and> n \<le> 13) \<or> (28 \<le> n \<and> n \<le> 32) \<or> n = 133 \<or> n = 160)"

definition lower_char :: "char \<Rightarrow> char" where
  "lower_char c =
     (let n = (of_char c :: nat)
      in if (65 \<le> n \<and> n \<le> 90) \<or> (192 \<le> n \<and> n \<le> 222 \<and> n \<noteq> 215)
         then char_of (n + 32) else c)"

definition py_strip :: "string \<Rightarrow> string" where
  "py_strip s = rev (dropWhile is_space (rev (dropWhile is_space s)))"

definition py_lower :: "string \<Rightarrow> string" where
  "py_lower s = map lower_char s"

primrec starts_with :: "string \<Rightarrow> string \<Rightarrow> bool" where
  "starts_with [] h = True"
| "starts_with (c # cs) h = (case h of [] \<Rightarrow> False | d # ds \<Rightarrow> c = d \<and> starts_with cs ds)"

primrec contains_from :: "string \<Rightarrow> string \<Rightarrow> bool" where
  "contains_from needle [] = starts_with needle []"
| "contains_from needle (d # ds) = (starts_with needle (d # ds) \<or> contains_from needle ds)"

text \<open>\<open>py_in needle h\<close> is Python's \<open>needle in h\<close> on strings.\<close>

definition py_in :: "string \<Rightarrow> string \<Rightarrow> bool" where
  "py_in needle h = contains_from needle h"

section \<open>The state record (Agents.py, WeatherState)\<close>

text \<open>
  A JSON scalar of the weather reading. The stages only interpolate the numbers into
  text, so a number is carried by its printed decimal form.
\<close>

datatype jvalue = JStr string | JNum string

record weather =
  w_weather :: jvalue
  w_wind_speed :: jvalue
  w_cloud_cover :: jvalue
  w_sea_level :: jvalue
  w_temperature :: jvalue
  w_humidity :: jvalue
  w_pressure :: jvalue

datatype message = SystemMessage string

text \<open>
  The state dictionary. \<open>weather_data\<close> is \<open>None\<close> for the empty dictionary of the
  initial state and \<open>Some\<close> of the seven-key dictionary afterwards.
  \<open>human_approved\<close> is \<open>None\<close> for Python's \<open>None\<close> (pending).
  The keys that only one of the two initial states has are optional:
  \<open>needs_approval = None\<close> and \<open>social_media_reports = None\<close> mean the key is
  absent; \<open>verification_id = None\<close> is an absent key or the value \<open>None\<close>
  (the code reads it with \<open>.get\<close> only).
\<close>

record WeatherState =
  city :: string
  weather_data :: "weather option"
  disaster_type :: string
  severity :: string
  response :: string
  messages :: "message list"
  alerts :: "string list"
  human_approved :: "bool option"
  needs_approval :: "bool option"
  verification_id :: "string option"
  social_media_reports :: "string list option"

text \<open>The node names of the two workflow graphs.\<close>

datatype node =
    Get_weather | Analyze_disaster | Assess_severity | Data_logging
  | Emergency_response | Civil_defense_response | Public_works_response
  | Get_human_verification | Wait_for_approval | Send_email_alert | Handle_no_approval

text \<open>The initial states of \<open>run_weather_emergency_system\<close> (Agents.py) and of
  \<open>run_agent_web\<close> (agent\_web.py).\<close>

definition initial_state :: "string \<Rightarrow> WeatherState" where
  "initial_state c =
     \<lparr>city = c, weather_data = None, disaster_type = [], severity = [], response = [],
      messages = [], alerts = [], human_approved = Some False, needs_approval = None,
      verification_id = None, social_media_reports = Some []\<rparr>"

definition initial_state_web :: "string \<Rightarrow> WeatherState" where
  "initial_state_web c =
     \<lparr>city = c, weather_data = None, disaster_type = [], severity = [], response = [],
      messages = [], alerts = [], human_approved = Some False, needs_approval = Some False,
      verification_id = None, social_media_reports = None\<rparr>"

section \<open>Routers\<close>

text \<open>Agents.py, \<open>route_response\<close>.\<close>

definition route_response :: "WeatherState \<Rightarrow> node" where
  "route_response state =
     (let disaster = py_lower (py_strip (disaster_type state));
          sev = py_lower (py_strip (severity state))
      in if sev \<in> set [''critical'', ''high''] then Emergency_response
         else if py_in ''flood'' disaster \<or> py_in ''storm'' disaster then Public_works_response
         else Civil_defense_response)"

text \<open>Agents.py, \<open>verify_approval_router\<close>: the truthiness of \<open>human_approved\<close>.\<close>

definition verify_approval_router :: "WeatherState \<Rightarrow> node" where
  "verify_approval_router state =
     (if human_approved state = Some True then Send_email_alert else Handle_no_approval)"

text \<open>agent\_web.py, \<open>verify_approval_router_web\<close>.\<close>

definition verify_approval_router_web :: "WeatherState \<Rightarrow> node" where
  "verify_approval_router_web state =
     (if needs_approval state = Some True \<and> human_approved state = None
      then Wait_for_approval
      else if human_approved state = Some True then Send_email_alert else Handle_no_approval)"

section \<open>The environment of a run\<close>

text \<open>
  What the outside world answers. Every external call sits in a \<open>try\<close> block of its
  stage; the environment gives the outcome of that block: \<open>Inl\<close> the text of the
  exception, \<open>Inr\<close> the value.
  \<^item> \<open>fetch\<close>: the weather request and the extraction of the seven readings, per city;
  \<^item> \<open>llm\<close>: the model call, per prompt template and variables;
  \<^item> \<open>log_io\<close>: the append to the audit file (\<open>Some\<close> the exception text);
  \<^item> \<open>smtp\<close>: the SMTP session of the notification stage (\<open>Some\<close> the exception text);
  \<^item> \<open>email_time\<close>, \<open>alert_time\<close>: the clock as printed in the email body and in
    the alert entry;
  \<^item> \<open>time_ms\<close>: \<open>int(time.time() * 1000)\<close>;
  \<^item> \<open>show_message\<close>: the message library's \<open>str(msg)\<close>.
\<close>

datatype prompt =
    Disaster_prompt "weather option"
  | Severity_prompt "weather option" string
  | Emergency_prompt string string string
  | Civil_defense_prompt string string string
  | Public_works_prompt string string string

record env =
  fetch :: "string \<Rightarrow> string + weather"
  llm :: "prompt \<Rightarrow> string + string"
  log_io :: "string option"
  smtp :: "string option"
  email_time :: string
  alert_time :: string
  time_ms :: int
  show_message :: "message \<Rightarrow> string"

text \<open>What the operator types at the console: a line, or \<open>input()\<close> raising.\<close>

datatype input_event = Line string | Input_error string

datatype exn = KeyError string | ValueError string

text \<open>A call returns, raises, or never returns.\<close>

datatype 'a outcome = Returns 'a | Raises exn | Hangs

section \<open>Stage functions (Agents.py)\<close>

definition error_data :: weather where
  "error_data =
     \<lparr>w_weather = JStr ''N/A'', w_wind_speed = JStr ''N/A'', w_cloud_cover = JStr ''N/A'',
      w_sea_level = JStr ''N/A'', w_temperature = JStr ''N/A'', w_humidity = JStr ''N/A'',
      w_pressure = JStr ''N/A''\<rparr>"

definition add_message :: "string \<Rightarrow> WeatherState \<Rightarrow> WeatherState" where
  \<comment> \<open>\<open>"messages": state["messages"] + [SystemMessage(content=...)]\<close>\<close>
  "add_message text state = state\<lparr>messages := messages state @ [SystemMessage text]\<rparr>"

definition get_weather_data :: "env \<Rightarrow> WeatherState \<Rightarrow> WeatherState" where
  "get_weather_data e state =
     (case fetch e (city state) of
        Inr wd \<Rightarrow>
          add_message (''Weather data fetched successfully for '' @ city state)
            (state\<lparr>weather_data := Some wd\<rparr>)
      | Inl err \<Rightarrow>
          add_message (''Failed to fetch weather data for '' @ city state @ '': '' @ err)
            (state\<lparr>weather_data := Some error_data\<rparr>))"

definition analyze_disaster_type :: "env \<Rightarrow> WeatherState \<Rightarrow> WeatherState" where
  "analyze_disaster_type e state =
     (case llm e (Disaster_prompt (weather_data state)) of
        Inr d \<Rightarrow>
          add_message (''Disaster type identified: '' @ d) (state\<lparr>disaster_type := d\<rparr>)
      | Inl err \<Rightarrow>
          add_message (''Failed to analyze disaster type: '' @ err)
            (state\<lparr>disaster_type := ''Analysis Failed''\<rparr>))"

definition assess_severity :: "env \<Rightarrow> WeatherState \<Rightarrow> WeatherState" where
  "assess_severity e state =
     (case llm e (Severity_prompt (weather_data state) (disaster_type state)) of
        Inr sev \<Rightarrow>
          add_message (''Severity assessed as: '' @ sev) (state\<lparr>severity := sev\<rparr>)
      | Inl err \<Rightarrow>
          add_message (''Failed to assess severity: '' @ err)
            (state\<lparr>severity := ''Assessment Failed''\<rparr>))"

definition emergency_response :: "env \<Rightarrow> WeatherState \<Rightarrow> WeatherState" where
  "emergency_response e state =
     (case llm e (Emergency_prompt (disaster_type state) (severity state) (city state)) of
        Inr r \<Rightarrow> add_message ''Emergency response plan generated'' (state\<lparr>response := r\<rparr>)
      | Inl err \<Rightarrow>
          add_message (''Failed to generate emergency response: '' @ err)
            (state\<lparr>response := ''Failed to generate response plan''\<rparr>))"

definition civil_defense_response :: "env \<Rightarrow> WeatherState \<Rightarrow> WeatherState" where
  "civil_defense_response e state =
     (case llm e (Civil_defense_prompt (disaster_type state) (severity state) (city state)) of
        Inr r \<Rightarrow> add_message ''Civil defense response plan generated'' (state\<lparr>response := r\<rparr>)
      | Inl err \<Rightarrow>
          add_message (''Failed to generate civil defense response: '' @ err)
            (state\<lparr>response := ''Failed to generate response plan''\<rparr>))"

definition public_works_response :: "env \<Rightarrow> WeatherState \<Rightarrow> WeatherState" where
  "public_works_response e state =
     (case llm e (Public_works_prompt (disaster_type state) (severity state) (city state)) of
        Inr r \<Rightarrow> add_message ''Public works response plan generated'' (state\<lparr>response := r\<rparr>)
      | Inl err \<Rightarrow>
          add_message (''Failed to generate public works response: '' @ err)
            (state\<lparr>response := ''Failed to generate response plan''\<rparr>))"

text \<open>
  \<open>data_logging\<close>: the record of the run is serialised and appended to the audit file
  inside the \<open>try\<close> block; the state only learns whether that worked.
\<close>

definition data_logging :: "env \<Rightarrow> WeatherState \<Rightarrow> WeatherState" where
  "data_logging e state =
     (case log_io e of
        None \<Rightarrow> add_message ''Data logged successfully'' state
      | Some err \<Rightarrow> add_message (''Failed to log data: '' @ err) state)"

text \<open>
  The input loop of \<open>get_human_verification\<close>: it reads until the lowercased, stripped
  line is \<open>y\<close> or \<open>n\<close>; an exception of \<open>input()\<close> is printed and the loop goes on.
  \<open>None\<close>: the operator never gives a valid answer and the loop does not end.
\<close>

fun read_decision :: "input_event list \<Rightarrow> (bool \<times> input_event list) option" where
  "read_decision [] = None"
| "read_decision (Line l # rest) =
     (let user_input = py_strip (py_lower l)
      in if user_input \<in> set [''y'', ''n''] then Some (user_input = ''y'', rest)
         else read_decision rest)"
| "read_decision (Input_error err # rest) = read_decision rest"

text \<open>
  \<open>get_human_verification\<close> (blocking mode). The low/medium branch prints
  \<open>state['weather_data']['weather']\<close> before it asks, which raises \<open>KeyError\<close> on the
  empty dictionary. The console is returned with the lines read removed.
\<close>

definition get_human_verification ::
  "WeatherState \<Rightarrow> input_event list \<Rightarrow> (WeatherState \<times> input_event list) outcome" where
  "get_human_verification state console =
     (let sev = py_lower (py_strip (severity state))
      in if sev \<in> set [''low'', ''medium''] then
           (case weather_data state of
              None \<Rightarrow> Raises (KeyError ''weather'')
            | Some wd \<Rightarrow>
                (case read_decision console of
                   None \<Rightarrow> Hangs
                 | Some (approved, rest) \<Rightarrow>
                     Returns
                       (add_message
                          (''Human verification: '' @ (if approved then ''Approved'' else ''Rejected''))
                          (state\<lparr>human_approved := Some approved\<rparr>),
                        rest)))
         else
           Returns
             (add_message (''Auto-approved '' @ sev @ '' severity alert'')
                (state\<lparr>human_approved := Some True\<rparr>),
              console))"

definition render :: "jvalue \<Rightarrow> string" where
  "render v = (case v of JStr s \<Rightarrow> s | JNum s \<Rightarrow> s)"

definition nl :: string where
  "nl = [CHR 0x0A]"

text \<open>\<open>format_weather_email\<close>: the body of the alert; it subscripts \<open>weather_data\<close>.\<close>

definition format_weather_email :: "env \<Rightarrow> WeatherState \<Rightarrow> exn + string" where
  "format_weather_email e state =
     (case weather_data state of
        None \<Rightarrow> Inl (KeyError ''weather'')
      | Some wd \<Rightarrow>
          (let email_content = concat
                 [nl, ''Weather Alert for '', city state, nl, nl,
                  ''Disaster Type: '', disaster_type state, nl,
                  ''Severity Level: '', severity state, nl, nl,
                  ''Current Weather Conditions:'', nl,
                  ''- Weather Description: '', render (w_weather wd), nl,
                  ''- Temperature: '', render (w_temperature wd), ''C'', nl,
                  ''- Wind Speed: '', render (w_wind_speed wd), '' m/s'', nl,
                  ''- Humidity: '', render (w_humidity wd), ''%'', nl,
                  ''- Pressure: '', render (w_pressure wd), '' hPa'', nl,
                  ''- Cloud Cover: '', render (w_cloud_cover wd), ''%'', nl, nl,
                  ''Response Plan:'', nl, response state, nl, nl,
                  ''This is an automated weather alert generated at '', email_time e, nl]
           in if py_lower (severity state) \<in> set [''low'', ''medium'']
              then Inr (email_content @ nl @
                     ''Note: This low/medium severity alert has been verified by a human operator.'')
              else Inr email_content))"

text \<open>
  \<open>send_email_alert\<close>. The message is built before the \<open>try\<close> block, so a failure of
  \<open>format_weather_email\<close> leaves the stage; the SMTP session is inside it.
\<close>

definition send_email_alert :: "env \<Rightarrow> WeatherState \<Rightarrow> exn + WeatherState" where
  "send_email_alert e state =
     (case format_weather_email e state of
        Inl x \<Rightarrow> Inl x
      | Inr body \<Rightarrow>
          (case smtp e of
             None \<Rightarrow>
               Inr ((add_message (''Successfully sent weather alert email for '' @ city state) state)
                      \<lparr>alerts := alerts state @ [''Email alert sent: '' @ alert_time e]\<rparr>)
           | Some err \<Rightarrow> Inr (add_message (''Failed to send email alert: '' @ err) state)))"

definition handle_no_approval :: "WeatherState \<Rightarrow> WeatherState" where
  "handle_no_approval state =
     add_message
       (''Alert not sent for '' @ city state @ '' - Weather severity level '' @ [CHR 0x27]
          @ severity state @ [CHR 0x27]
          @ '' was deemed non-critical by human operator and verification was rejected.'')
       state"

section \<open>Suspend and resume (agent\_web.py)\<close>

text \<open>Python's \<open>str\<close> of an integer.\<close>

definition digit_char :: "int \<Rightarrow> char" where
  "digit_char d = char_of (48 + d)"

function digits :: "int \<Rightarrow> string" where
  "digits n = (if n < 10 then [digit_char n] else digits (n div 10) @ [digit_char (n mod 10)])"
  by pat_completeness auto
termination
  by (relation "measure nat") auto

declare digits.simps [simp del]

definition str_int :: "int \<Rightarrow> string" where
  "str_int i = (if i < 0 then CHR ''-'' # digits (- i) else digits i)"

text \<open>The module-level dictionary \<open>_pending_verifications\<close>.\<close>

type_synonym store = "string \<rightharpoonup> WeatherState"

definition wait_for_approval :: "WeatherState \<Rightarrow> WeatherState" where
  "wait_for_approval state = state"

text \<open>
  \<open>get_human_verification_web\<close>: the state it was given goes into the dictionary under
  the new identifier; the returned state is a new dictionary built from it.
\<close>

definition get_human_verification_web ::
  "env \<Rightarrow> WeatherState \<Rightarrow> store \<Rightarrow> WeatherState \<times> store" where
  "get_human_verification_web e state pending =
     (let sev = py_lower (py_strip (severity state))
      in if sev \<in> set [''low'', ''medium''] then
           (let verification = city state @ ''_'' @ str_int (time_ms e)
            in (add_message ''Human verification required for low/medium severity alert''
                  (state\<lparr>human_approved := None, verification_id := Some verification,
                         needs_approval := Some True\<rparr>),
                pending(verification \<mapsto> state)))
         else
           (add_message (''Auto-approved '' @ sev @ '' severity alert'')
              (state\<lparr>human_approved := Some True, needs_approval := Some False\<rparr>),
            pending))"

text \<open>
  \<open>continue_with_approval\<close>: the result, and the dictionary afterwards. The entry is
  deleted after the final stage has returned.
\<close>

definition continue_with_approval ::
  "env \<Rightarrow> string \<Rightarrow> bool \<Rightarrow> store \<Rightarrow> (exn + WeatherState) \<times> store" where
  "continue_with_approval e verification approved pending =
     (case pending verification of
        None \<Rightarrow> (Inl (ValueError (''Verification ID '' @ verification @ '' not found'')), pending)
      | Some snapshot \<Rightarrow>
          (let state = snapshot\<lparr>human_approved := Some approved, needs_approval := Some False\<rparr>
           in if approved then
                (case send_email_alert e state of
                   Inl x \<Rightarrow> (Inl x, pending)
                 | Inr final_state \<Rightarrow> (Inr final_state, pending(verification := None)))
              else (Inr (handle_no_approval state), pending(verification := None))))"

text \<open>
  main.py, \<open>handle_approval\<close>: the answer of the \<open>/approve\<close> endpoint.
  \<open>web_agent_available\<close> is the module flag \<open>WEB_AGENT_AVAILABLE\<close>.
\<close>

datatype approval_message = Email_sent | Approved_with_issue | Approval_rejected

datatype http_answer =
    Answer_ok approval_message bool string
  | Answer_error nat string

definition handle_approval ::
  "bool \<Rightarrow> env \<Rightarrow> string \<Rightarrow> bool \<Rightarrow> store \<Rightarrow> http_answer \<times> store" where
  "handle_approval web_agent_available e verification approved pending =
     (if \<not> web_agent_available then
        (Answer_error 501
           ''Web agent not available. Approval handling requires agent_web module.'', pending)
      else
        (case continue_with_approval e verification approved pending of
           (Inr result, pending') \<Rightarrow>
             (let email_sent = (''send_email_alert'' \<in> set (map (show_message e) (messages result)))
              in (Answer_ok
                    (if approved \<and> email_sent then Email_sent
                     else if approved then Approved_with_issue else Approval_rejected)
                    email_sent (city result), pending'))
         | (Inl (ValueError msg), pending') \<Rightarrow>
             (Answer_error 404 (''Verification ID not found: '' @ msg), pending')
         | (Inl (KeyError msg), pending') \<Rightarrow>
             (Answer_error 500 (''Error processing approval: '' @ [CHR 0x27] @ msg @ [CHR 0x27]),
              pending')))"

section \<open>The workflow graphs and their execution\<close>

text \<open>
  The two graphs have the same nodes and edges, except for the verification stage and
  its router, and for the park node \<open>wait_for_approval\<close>, which only the graph of
  \<open>run_agent_web\<close> has.
\<close>

datatype mode = Blocking | Web

record world =
  st :: WeatherState
  pending_verifications :: store
  console :: "input_event list"

fun apply_stage :: "mode \<Rightarrow> env \<Rightarrow> node \<Rightarrow> world \<Rightarrow> world outcome" where
  "apply_stage m e Get_weather w = Returns (w\<lparr>st := get_weather_data e (st w)\<rparr>)"
| "apply_stage m e Analyze_disaster w = Returns (w\<lparr>st := analyze_disaster_type e (st w)\<rparr>)"
| "apply_stage m e Assess_severity w = Returns (w\<lparr>st := assess_severity e (st w)\<rparr>)"
| "apply_stage m e Data_logging w = Returns (w\<lparr>st := data_logging e (st w)\<rparr>)"
| "apply_stage m e Emergency_response w = Returns (w\<lparr>st := emergency_response e (st w)\<rparr>)"
| "apply_stage m e Civil_defense_response w =
     Returns (w\<lparr>st := civil_defense_response e (st w)\<rparr>)"
| "apply_stage m e Public_works_response w =
     Returns (w\<lparr>st := public_works_response e (st w)\<rparr>)"
| "apply_stage Blocking e Get_human_verification w =
     (case get_human_verification (st w) (console w) of
        Returns (s', rest) \<Rightarrow> Returns (w\<lparr>st := s', console := rest\<rparr>)
      | Raises x \<Rightarrow> Raises x
      | Hangs \<Rightarrow> Hangs)"
| "apply_stage Web e Get_human_verification w =
     (case get_human_verification_web e (st w) (pending_verifications w) of
        (s', pending') \<Rightarrow> Returns (w\<lparr>st := s', pending_verifications := pending'\<rparr>))"
| "apply_stage m e Wait_for_approval w = Returns (w\<lparr>st := wait_for_approval (st w)\<rparr>)"
| "apply_stage m e Send_email_alert w =
     (case send_email_alert e (st w) of
        Inl x \<Rightarrow> Raises x
      | Inr s' \<Rightarrow> Returns (w\<lparr>st := s'\<rparr>))"
| "apply_stage m e Handle_no_approval w = Returns (w\<lparr>st := handle_no_approval (st w)\<rparr>)"

text \<open>The edges: \<open>None\<close> is \<open>END\<close>.\<close>

fun successor :: "mode \<Rightarrow> node \<Rightarrow> WeatherState \<Rightarrow> node option" where
  "successor m Get_weather s = Some Analyze_disaster"
| "successor m Analyze_disaster s = Some Assess_severity"
| "successor m Assess_severity s = Some Data_logging"
| "successor m Data_logging s = Some (route_response s)"
| "successor m Civil_defense_response s = Some Get_human_verification"
| "successor m Public_works_response s = Some Get_human_verification"
| "successor Blocking Get_human_verification s = Some (verify_approval_router s)"
| "successor Web Get_human_verification s = Some (verify_approval_router_web s)"
| "successor m Wait_for_approval s = None"
| "successor m Emergency_response s = Some Send_email_alert"
| "successor m Send_email_alert s = None"
| "successor m Handle_no_approval s = None"

text \<open>The distance of a node from the entry point; every edge increases it.\<close>

fun rank :: "node \<Rightarrow> nat" where
  "rank Get_weather = 0"
| "rank Analyze_disaster = 1"
| "rank Assess_severity = 2"
| "rank Data_logging = 3"
| "rank Emergency_response = 4"
| "rank Civil_defense_response = 4"
| "rank Public_works_response = 4"
| "rank Get_human_verification = 5"
| "rank Wait_for_approval = 6"
| "rank Send_email_alert = 6"
| "rank Handle_no_approval = 6"

lemma rank_le: "rank n \<le> 6"
  by (cases n) simp_all

lemma rank_successor: "successor m n s = Some n' \<Longrightarrow> rank n < rank n'"
  by (cases m; cases n)
     (auto simp: route_response_def verify_approval_router_def verify_approval_router_web_def
        Let_def split: if_splits)

text \<open>
  Modelled from the spec: the graph executor (section 4.4; the library behind
  \<open>app.invoke\<close> is not part of the repository). From a node it applies the node's
  stage to the state, asks the node's edge or router for the next node with the new
  state, and goes on there until the edge is \<open>END\<close>. The state a stage returns is the
  state the next stage receives, whole: the keys \<open>needs_approval\<close> and
  \<open>verification_id\<close>, which the declaration of \<open>WeatherState\<close> does not list, are handed
  on like the others. The result is the list of the nodes entered and the final world.
\<close>

function exec :: "mode \<Rightarrow> env \<Rightarrow> node \<Rightarrow> world \<Rightarrow> (node list \<times> world) outcome" where
  "exec m e n w =
     (case apply_stage m e n w of
        Raises x \<Rightarrow> Raises x
      | Hangs \<Rightarrow> Hangs
      | Returns w' \<Rightarrow>
          (case successor m n (st w') of
             None \<Rightarrow> Returns ([n], w')
           | Some n' \<Rightarrow>
               (case exec m e n' w' of
                  Returns (path, w'') \<Rightarrow> Returns (n # path, w'')
                | Raises x \<Rightarrow> Raises x
                | Hangs \<Rightarrow> Hangs)))"
  by pat_completeness auto
termination
proof (relation "measure (\<lambda>(m, e, n, w). 6 - rank n)")
  show "wf (measure (\<lambda>(m, e, n, w). 6 - rank n))"
    by simp
next
  fix m :: mode and e :: env and n n' :: node and w w' :: world
  assume "successor m n (st w') = Some n'"
  then have "rank n < rank n'"
    by (rule rank_successor)
  moreover have "rank n' \<le> 6"
    by (rule rank_le)
  ultimately show "((m, e, n', w'), (m, e, n, w)) \<in> measure (\<lambda>(m, e, n, w). 6 - rank n)"
    by simp
qed

declare exec.simps [simp del]

text \<open>
  Agents.py, \<open>run_weather_emergency_system\<close>: the blocking graph from its entry point;
  an exception of the run is printed and the function returns \<open>None\<close>.
\<close>

definition blocking_world :: "string \<Rightarrow> input_event list \<Rightarrow> world" where
  "blocking_world c inputs =
     \<lparr>st = initial_state c, pending_verifications = Map.empty, console = inputs\<rparr>"

definition run_weather_emergency_system ::
  "env \<Rightarrow> string \<Rightarrow> input_event list \<Rightarrow> WeatherState option outcome" where
  "run_weather_emergency_system e c inputs =
     (case exec Blocking e Get_weather (blocking_world c inputs) of
        Returns (path, w) \<Rightarrow> Returns (Some (st w))
      | Raises x \<Rightarrow> Returns None
      | Hangs \<Rightarrow> Hangs)"


definition web_world :: "string \<Rightarrow> store \<Rightarrow> world" where
  "web_world c pending =
     \<lparr>st = initial_state_web c, pending_verifications = pending, console = []\<rparr>"



text \<open>Reading a run: the state it ended with and the nodes it entered.\<close>

definition final_state :: "(node list \<times> world) outcome \<Rightarrow> WeatherState option" where
  "final_state r = (case r of Returns (path, w) \<Rightarrow> Some (st w) | _ \<Rightarrow> None)"

definition visited :: "(node list \<times> world) outcome \<Rightarrow> node list" where
  "visited r = (case r of Returns (path, w) \<Rightarrow> path | _ \<Rightarrow> [])"

definition returned :: "WeatherState option outcome \<Rightarrow> WeatherState option" where
  "returned r = (case r of Returns result \<Rightarrow> result | _ \<Rightarrow> None)"

definition hangs :: "'a outcome \<Rightarrow> bool" where
  "hangs r = (case r of Hangs \<Rightarrow> True | _ \<Rightarrow> False)"

text \<open>
  Two runs from the same world under two environments end alike up to the clock in the
  alert: both wait for the operator for ever, or both return after the same nodes with
  states that are equal outside \<open>alerts\<close>, where either both alert lists are \<open>a\<close> or
  each is \<open>a\<close> followed by the one alert entry with its own clock reading.
\<close>

definition alike_up_to_alert_time ::
  "env \<Rightarrow> env \<Rightarrow> string list \<Rightarrow> (node list \<times> world) outcome \<Rightarrow> (node list \<times> world) outcome
     \<Rightarrow> bool" where
  "alike_up_to_alert_time e1 e2 a r1 r2 =
     (r1 = Hangs \<and> r2 = Hangs
      \<or> (\<exists>path w1 w2. r1 = Returns (path, w1) \<and> r2 = Returns (path, w2)
            \<and> st w2 = (st w1)\<lparr>alerts := alerts (st w2)\<rparr>
            \<and> (alerts (st w1) = a \<and> alerts (st w2) = a
                \<or> alerts (st w1) = a @ [''Email alert sent: '' @ alert_time e1]
                  \<and> alerts (st w2) = a @ [''Email alert sent: '' @ alert_time e2])))"

section \<open>Sample environments\<close>

text \<open>
  Concrete environments for evaluating the model: one where every external call
  succeeds, the model answering \<open>sev\<close> for the severity and the mail transport
  answering \<open>mail\<close> at clock reading \<open>clock\<close>; and one where every external call fails.
\<close>

definition sample_reading :: weather where
  "sample_reading =
     \<lparr>w_weather = JStr ''light rain'', w_wind_speed = JNum ''5.2'', w_cloud_cover = JNum ''75'',
      w_sea_level = JNum ''1012'', w_temperature = JNum ''21.4'', w_humidity = JNum ''65'',
      w_pressure = JNum ''1013''\<rparr>"

definition sample_env :: "string \<Rightarrow> string option \<Rightarrow> string \<Rightarrow> env" where
  "sample_env sev mail clock =
     \<lparr>fetch = (\<lambda>c. Inr sample_reading),
      llm = (\<lambda>p. case p of
                    Disaster_prompt wd \<Rightarrow> Inr ''Flood''
                  | Severity_prompt wd d \<Rightarrow> Inr sev
                  | _ \<Rightarrow> Inr ''Move to higher ground''),
      log_io = None, smtp = mail, email_time = clock, alert_time = clock,
      time_ms = 1700000000000,
      show_message = (\<lambda>m. case m of SystemMessage text \<Rightarrow> text)\<rparr>"

definition failing_env :: env where
  "failing_env =
     \<lparr>fetch = (\<lambda>c. Inl ''timeout''), llm = (\<lambda>p. Inl ''quota exceeded''),
      log_io = Some ''disk full'', smtp = Some ''connection refused'',
      email_time = ''2024-01-01 00:00:01'',
      alert_time = ''2024-01-01 00:00:02.000001'', time_ms = 1704067200000,
      show_message = (\<lambda>m. case m of SystemMessage text \<Rightarrow> text)\<rparr>"

section \<open>Substring test\<close>

lemma starts_with_prefix: "starts_with n h = prefix n h"
  by (induction n arbitrary: h) (auto split: list.splits simp: prefix_Cons)

lemma contains_from_sublist: "contains_from n h = sublist n h"
proof (induction h)
  case Nil
  show ?case by (simp add: starts_with_prefix)
next
  case (Cons d ds)
  show ?case
    by (simp add: starts_with_prefix Cons sublist_Cons_right)
qed

lemma py_in_sublist: "py_in n h = sublist n h"
  by (simp add: py_in_def contains_from_sublist)

section \<open>What a trace entry changes\<close>

lemma messages_add_message [simp]:
  "messages (add_message t s) = messages s @ [SystemMessage t]"
  by (simp add: add_message_def)

lemma fields_add_message [simp]:
  "city (add_message t s) = city s"
  "weather_data (add_message t s) = weather_data s"
  "disaster_type (add_message t s) = disaster_type s"
  "severity (add_message t s) = severity s"
  "response (add_message t s) = response s"
  "alerts (add_message t s) = alerts s"
  "human_approved (add_message t s) = human_approved s"
  "needs_approval (add_message t s) = needs_approval s"
  "verification_id (add_message t s) = verification_id s"
  "social_media_reports (add_message t s) = social_media_reports s"
  by (simp_all add: add_message_def)

section \<open>Department routing\<close>

text \<open>
  C1. The department router returns the emergency-response node whenever the stripped,
  lowercased severity is "critical" or "high", whatever the disaster type; otherwise the
  public-works node whenever the stripped, lowercased disaster type has "flood" or
  "storm" as a substring; and the civil-defense node in every remaining case, among them
  an empty or sentinel severity and disaster type.
\<close>

theorem route_response_severity_dominates:
  assumes "sev = py_lower (py_strip (severity s))"
    and "dis = py_lower (py_strip (disaster_type s))"
  shows "(sev = ''critical'' \<or> sev = ''high'' \<longrightarrow> route_response s = Emergency_response)
       \<and> (sev \<noteq> ''critical'' \<and> sev \<noteq> ''high'' \<and> (sublist ''flood'' dis \<or> sublist ''storm'' dis)
            \<longrightarrow> route_response s = Public_works_response)
       \<and> (sev \<noteq> ''critical'' \<and> sev \<noteq> ''high'' \<and> \<not> sublist ''flood'' dis \<and> \<not> sublist ''storm'' dis
            \<longrightarrow> route_response s = Civil_defense_response)"
  using assms by (auto simp: route_response_def Let_def py_in_sublist)

theorem route_response_severity_dominates_witness:
  "route_response ((initial_state ''Cairo'')\<lparr>disaster_type := ''Flood'', severity := '' Critical ''\<rparr>)
     = Emergency_response
 \<and> route_response ((initial_state ''Cairo'')\<lparr>disaster_type := ''Severe Storm'', severity := ''Low''\<rparr>)
     = Public_works_response
 \<and> route_response (initial_state ''Cairo'') = Civil_defense_response
 \<and> route_response
      ((initial_state ''Cairo'')\<lparr>disaster_type := ''Analysis Failed'', severity := ''Assessment Failed''\<rparr>)
     = Civil_defense_response"
proof -
  have n1: "py_lower (py_strip '' Critical '') = ''critical''" by code_simp
  have n2: "py_lower (py_strip ''Low'') = ''low''" by code_simp
  have n3: "py_lower (py_strip ''Severe Storm'') = ''severe storm''" by code_simp
  have n4: "py_lower (py_strip []) = []" by code_simp
  have n5: "py_lower (py_strip ''Assessment Failed'') = ''assessment failed''" by code_simp
  have n6: "py_lower (py_strip ''Analysis Failed'') = ''analysis failed''" by code_simp
  have s1: "sublist ''storm'' ''severe storm''"
    unfolding py_in_sublist [symmetric] by code_simp
  have s2: "\<not> sublist ''flood'' []" "\<not> sublist ''storm'' []"
    "\<not> sublist ''flood'' ''analysis failed''" "\<not> sublist ''storm'' ''analysis failed''"
    unfolding py_in_sublist [symmetric] by code_simp+
  show ?thesis
    using
      route_response_severity_dominates [OF refl refl,
        of "(initial_state ''Cairo'')\<lparr>disaster_type := ''Flood'', severity := '' Critical ''\<rparr>"]
      route_response_severity_dominates [OF refl refl,
        of "(initial_state ''Cairo'')\<lparr>disaster_type := ''Severe Storm'', severity := ''Low''\<rparr>"]
      route_response_severity_dominates [OF refl refl, of "initial_state ''Cairo''"]
      route_response_severity_dominates [OF refl refl,
        of "(initial_state ''Cairo'')\<lparr>disaster_type := ''Analysis Failed'',
              severity := ''Assessment Failed''\<rparr>"]
    by (simp add: initial_state_def n1 n2 n3 n4 n5 n6 s1 s2)
qed

section \<open>Auto-approval in the blocking verification stage\<close>

text \<open>
  C10. For every input state whose stripped, lowercased severity is anything other than
  "low" or "medium" (the sentinel "Assessment Failed" and the empty string among them),
  the blocking human-verification stage returns with \<open>human_approved\<close> true, one
  auto-approval entry appended to the messages and every other field as it was, and
  without reading anything from the console.
\<close>

theorem get_human_verification_auto_approves:
  assumes "py_lower (py_strip (severity s)) \<noteq> ''low''"
    and "py_lower (py_strip (severity s)) \<noteq> ''medium''"
  shows "get_human_verification s inputs =
     Returns
       (s\<lparr>human_approved := Some True,
          messages := messages s
            @ [SystemMessage (''Auto-approved '' @ py_lower (py_strip (severity s)) @ '' severity alert'')]\<rparr>,
        inputs)"
  using assms by (simp add: get_human_verification_def Let_def add_message_def)

theorem get_human_verification_auto_approves_witness:
  "get_human_verification ((initial_state ''Cairo'')\<lparr>severity := ''Assessment Failed''\<rparr>) [] =
     Returns
       ((initial_state ''Cairo'')
          \<lparr>severity := ''Assessment Failed'', human_approved := Some True,
           messages := [SystemMessage ''Auto-approved assessment failed severity alert'']\<rparr>, [])
 \<and> get_human_verification (initial_state ''Cairo'') [Line ''n''] =
     Returns
       ((initial_state ''Cairo'')
          \<lparr>human_approved := Some True,
           messages := [SystemMessage ''Auto-approved  severity alert'']\<rparr>, [Line ''n''])"
proof -
  have n1: "py_lower (py_strip ''Assessment Failed'') = ''assessment failed''" by code_simp
  have n2: "py_lower (py_strip []) = []" by code_simp
  show ?thesis
    using get_human_verification_auto_approves
        [of "(initial_state ''Cairo'')\<lparr>severity := ''Assessment Failed''\<rparr>" "[]"]
      get_human_verification_auto_approves [of "initial_state ''Cairo''" "[Line ''n'']"]
    by (simp add: initial_state_def n1 n2)
qed

section \<open>Resuming with an unknown token\<close>

text \<open>
  C5. For every token that is not in the pending dictionary, because it was never there
  or because an earlier resume consumed it, \<open>continue_with_approval\<close> raises the
  not-found \<open>ValueError\<close>, the \<open>/approve\<close> endpoint answers it with status 404, and the
  dictionary is left as it was.
\<close>

theorem resume_unknown_token_fails:
  "(pending v = None \<longrightarrow>
      continue_with_approval e v approved pending
        = (Inl (ValueError (''Verification ID '' @ v @ '' not found'')), pending)
    \<and> handle_approval True e v approved pending
        = (Answer_error 404 (''Verification ID not found: Verification ID '' @ v @ '' not found''),
           pending))
 \<and> (continue_with_approval e v approved pending = (Inr result, pending') \<longrightarrow>
      continue_with_approval e2 v approved2 pending'
        = (Inl (ValueError (''Verification ID '' @ v @ '' not found'')), pending')
    \<and> handle_approval True e2 v approved2 pending'
        = (Answer_error 404 (''Verification ID not found: Verification ID '' @ v @ '' not found''),
           pending'))"
  by (auto simp: continue_with_approval_def handle_approval_def Let_def
      split: option.splits sum.splits if_splits)

theorem resume_unknown_token_fails_witness:
  "continue_with_approval failing_env ''London_1'' True Map.empty
     = (Inl (ValueError ''Verification ID London_1 not found''), Map.empty)
 \<and> handle_approval True failing_env ''London_1'' True Map.empty
     = (Answer_error 404 ''Verification ID not found: Verification ID London_1 not found'', Map.empty)
 \<and> continue_with_approval failing_env ''Cairo_1'' False [''Cairo_1'' \<mapsto> initial_state_web ''Cairo'']
     = (Inr (handle_no_approval
          ((initial_state_web ''Cairo'')\<lparr>human_approved := Some False, needs_approval := Some False\<rparr>)),
        [''Cairo_1'' \<mapsto> initial_state_web ''Cairo''](''Cairo_1'' := None))
 \<and> continue_with_approval failing_env ''Cairo_1'' True
       ([''Cairo_1'' \<mapsto> initial_state_web ''Cairo''](''Cairo_1'' := None))
     = (Inl (ValueError ''Verification ID Cairo_1 not found''),
        [''Cairo_1'' \<mapsto> initial_state_web ''Cairo''](''Cairo_1'' := None))"
  using resume_unknown_token_fails
      [where pending = Map.empty and v = "''London_1''" and e = failing_env and approved = True]
    resume_unknown_token_fails
      [where pending = "[''Cairo_1'' \<mapsto> initial_state_web ''Cairo'']" and v = "''Cairo_1''"
         and e = failing_env and approved = False and ?e2.0 = failing_env and ?approved2.0 = True
         and result = "handle_no_approval
          ((initial_state_web ''Cairo'')\<lparr>human_approved := Some False, needs_approval := Some False\<rparr>)"
         and pending' = "[''Cairo_1'' \<mapsto> initial_state_web ''Cairo''](''Cairo_1'' := None)"]
  by (simp add: continue_with_approval_def)

section \<open>The trace only grows\<close>

text \<open>
  C6. For every stage function of either graph and every input state, the messages of
  the returned state are the messages of the input state with zero or more entries
  appended at the end.
\<close>

theorem stage_appends_to_messages:
  assumes "apply_stage m e n w = Returns w'"
  shows "\<exists>new. messages (st w') = messages (st w) @ new"
  using assms
  by (cases m; cases n)
     (auto simp: get_weather_data_def analyze_disaster_type_def assess_severity_def
        data_logging_def emergency_response_def civil_defense_response_def
        public_works_response_def get_human_verification_def get_human_verification_web_def
        wait_for_approval_def send_email_alert_def handle_no_approval_def Let_def
        split: sum.splits option.splits if_splits outcome.splits prod.splits)


theorem stage_appends_to_messages_witness:
  "apply_stage Web failing_env Get_weather (web_world ''Cairo'' Map.empty)
     = Returns ((web_world ''Cairo'' Map.empty)
         \<lparr>st := get_weather_data failing_env (initial_state_web ''Cairo'')\<rparr>)
 \<and> (\<exists>new. messages (get_weather_data failing_env (initial_state_web ''Cairo''))
        = messages (initial_state_web ''Cairo'') @ new)"
  using stage_appends_to_messages
      [of Web failing_env Get_weather "web_world ''Cairo'' Map.empty"
        "(web_world ''Cairo'' Map.empty)
           \<lparr>st := get_weather_data failing_env (initial_state_web ''Cairo'')\<rparr>"]
  by (simp add: web_world_def)

section \<open>The notification stage\<close>

text \<open>
  C8. The notification stage, given a state with a weather reading (so that the message
  can be formatted and a dispatch is attempted): when the dispatch succeeds it appends
  one entry with the clock reading to the alerts and a success entry to the messages;
  when the dispatch fails it appends a failure entry to the messages and changes nothing
  else; in both cases it returns, nothing is raised, and the executor ends the run there.
\<close>

theorem send_email_alert_outcomes:
  assumes "weather_data s = Some wd" and "st w = s"
  shows "(smtp e = None \<longrightarrow>
           send_email_alert e s =
             Inr (s\<lparr>messages := messages s
                      @ [SystemMessage (''Successfully sent weather alert email for '' @ city s)],
                    alerts := alerts s @ [''Email alert sent: '' @ alert_time e]\<rparr>))
       \<and> (smtp e = Some err \<longrightarrow>
           send_email_alert e s =
             Inr (s\<lparr>messages := messages s
                      @ [SystemMessage (''Failed to send email alert: '' @ err)]\<rparr>))
       \<and> (\<exists>s'. send_email_alert e s = Inr s'
             \<and> exec m e Send_email_alert w = Returns ([Send_email_alert], w\<lparr>st := s'\<rparr>))"
  using assms
  by (auto simp: send_email_alert_def format_weather_email_def Let_def add_message_def
        exec.simps [of m e Send_email_alert]
      split: option.splits)

theorem send_email_alert_outcomes_witness:
  "send_email_alert (sample_env ''High'' None ''2024-05-01 10:00:00'')
       ((initial_state ''Cairo'')\<lparr>weather_data := Some sample_reading\<rparr>)
     = Inr ((initial_state ''Cairo'')
         \<lparr>weather_data := Some sample_reading,
          messages := [SystemMessage ''Successfully sent weather alert email for Cairo''],
          alerts := [''Email alert sent: 2024-05-01 10:00:00'']\<rparr>)
 \<and> send_email_alert failing_env ((initial_state ''Cairo'')\<lparr>weather_data := Some sample_reading\<rparr>)
     = Inr ((initial_state ''Cairo'')
         \<lparr>weather_data := Some sample_reading,
          messages := [SystemMessage ''Failed to send email alert: connection refused'']\<rparr>)"
  using send_email_alert_outcomes
      [of "(initial_state ''Cairo'')\<lparr>weather_data := Some sample_reading\<rparr>" sample_reading
        "(blocking_world ''Cairo'' [])
           \<lparr>st := (initial_state ''Cairo'')\<lparr>weather_data := Some sample_reading\<rparr>\<rparr>"
        "sample_env ''High'' None ''2024-05-01 10:00:00''" undefined Blocking]
    send_email_alert_outcomes
      [of "(initial_state ''Cairo'')\<lparr>weather_data := Some sample_reading\<rparr>" sample_reading
        "(blocking_world ''Cairo'' [])
           \<lparr>st := (initial_state ''Cairo'')\<lparr>weather_data := Some sample_reading\<rparr>\<rparr>"
        failing_env "''connection refused''" Blocking]
  by (simp add: initial_state_def sample_env_def failing_env_def)

section \<open>What the stages leave unchanged, and single steps of the executor\<close>

lemma get_weather_data_fields [simp]:
  "weather_data (get_weather_data e s) \<noteq> None"
  "city (get_weather_data e s) = city s"
  "disaster_type (get_weather_data e s) = disaster_type s"
  "severity (get_weather_data e s) = severity s"
  "response (get_weather_data e s) = response s"
  "alerts (get_weather_data e s) = alerts s"
  "human_approved (get_weather_data e s) = human_approved s"
  "needs_approval (get_weather_data e s) = needs_approval s"
  "verification_id (get_weather_data e s) = verification_id s"
  "social_media_reports (get_weather_data e s) = social_media_reports s"
  by (simp_all add: get_weather_data_def split: sum.splits)

lemma analyze_disaster_type_fields [simp]:
  "weather_data (analyze_disaster_type e s) = weather_data s"
  "city (analyze_disaster_type e s) = city s"
  "severity (analyze_disaster_type e s) = severity s"
  "response (analyze_disaster_type e s) = response s"
  "alerts (analyze_disaster_type e s) = alerts s"
  "human_approved (analyze_disaster_type e s) = human_approved s"
  "needs_approval (analyze_disaster_type e s) = needs_approval s"
  "verification_id (analyze_disaster_type e s) = verification_id s"
  "social_media_reports (analyze_disaster_type e s) = social_media_reports s"
  by (simp_all add: analyze_disaster_type_def split: sum.splits)

lemma assess_severity_fields [simp]:
  "weather_data (assess_severity e s) = weather_data s"
  "city (assess_severity e s) = city s"
  "disaster_type (assess_severity e s) = disaster_type s"
  "response (assess_severity e s) = response s"
  "alerts (assess_severity e s) = alerts s"
  "human_approved (assess_severity e s) = human_approved s"
  "needs_approval (assess_severity e s) = needs_approval s"
  "verification_id (assess_severity e s) = verification_id s"
  "social_media_reports (assess_severity e s) = social_media_reports s"
  by (simp_all add: assess_severity_def split: sum.splits)

lemma data_logging_fields [simp]:
  "weather_data (data_logging e s) = weather_data s"
  "city (data_logging e s) = city s"
  "disaster_type (data_logging e s) = disaster_type s"
  "severity (data_logging e s) = severity s"
  "response (data_logging e s) = response s"
  "alerts (data_logging e s) = alerts s"
  "human_approved (data_logging e s) = human_approved s"
  "needs_approval (data_logging e s) = needs_approval s"
  "verification_id (data_logging e s) = verification_id s"
  "social_media_reports (data_logging e s) = social_media_reports s"
  by (simp_all add: data_logging_def split: option.splits)

lemma emergency_response_fields [simp]:
  "weather_data (emergency_response e s) = weather_data s"
  "city (emergency_response e s) = city s"
  "disaster_type (emergency_response e s) = disaster_type s"
  "severity (emergency_response e s) = severity s"
  "alerts (emergency_response e s) = alerts s"
  "human_approved (emergency_response e s) = human_approved s"
  "needs_approval (emergency_response e s) = needs_approval s"
  "verification_id (emergency_response e s) = verification_id s"
  "social_media_reports (emergency_response e s) = social_media_reports s"
  by (simp_all add: emergency_response_def split: sum.splits)

lemma civil_defense_response_fields [simp]:
  "weather_data (civil_defense_response e s) = weather_data s"
  "city (civil_defense_response e s) = city s"
  "disaster_type (civil_defense_response e s) = disaster_type s"
  "severity (civil_defense_response e s) = severity s"
  "alerts (civil_defense_response e s) = alerts s"
  "human_approved (civil_defense_response e s) = human_approved s"
  "needs_approval (civil_defense_response e s) = needs_approval s"
  "verification_id (civil_defense_response e s) = verification_id s"
  "social_media_reports (civil_defense_response e s) = social_media_reports s"
  by (simp_all add: civil_defense_response_def split: sum.splits)

lemma public_works_response_fields [simp]:
  "weather_data (public_works_response e s) = weather_data s"
  "city (public_works_response e s) = city s"
  "disaster_type (public_works_response e s) = disaster_type s"
  "severity (public_works_response e s) = severity s"
  "alerts (public_works_response e s) = alerts s"
  "human_approved (public_works_response e s) = human_approved s"
  "needs_approval (public_works_response e s) = needs_approval s"
  "verification_id (public_works_response e s) = verification_id s"
  "social_media_reports (public_works_response e s) = social_media_reports s"
  by (simp_all add: public_works_response_def split: sum.splits)

lemma send_email_alert_returns:
  assumes "weather_data s \<noteq> None"
  shows "send_email_alert e s =
     Inr (case smtp e of
            None \<Rightarrow> (add_message (''Successfully sent weather alert email for '' @ city s) s)
                      \<lparr>alerts := alerts s @ [''Email alert sent: '' @ alert_time e]\<rparr>
          | Some err \<Rightarrow> add_message (''Failed to send email alert: '' @ err) s)"
  using assms
  by (auto simp: send_email_alert_def format_weather_email_def Let_def split: option.splits)

lemma exec_step:
  assumes "apply_stage m e n w = Returns w'" and "successor m n (st w') = Some n'"
  shows "exec m e n w =
     (case exec m e n' w' of
        Returns (path, w'') \<Rightarrow> Returns (n # path, w'')
      | Raises x \<Rightarrow> Raises x
      | Hangs \<Rightarrow> Hangs)"
  using assms by (simp add: exec.simps [of m e n])

lemma exec_last:
  assumes "apply_stage m e n w = Returns w'" and "successor m n (st w') = None"
  shows "exec m e n w = Returns ([n], w')"
  using assms by (simp add: exec.simps [of m e n])

lemma exec_Send_email_alert:
  assumes "weather_data (st w) \<noteq> None"
  shows "exec m e Send_email_alert w =
     Returns ([Send_email_alert],
       w\<lparr>st := (case smtp e of
            None \<Rightarrow> (add_message (''Successfully sent weather alert email for '' @ city (st w)) (st w))
                      \<lparr>alerts := alerts (st w) @ [''Email alert sent: '' @ alert_time e]\<rparr>
          | Some err \<Rightarrow> add_message (''Failed to send email alert: '' @ err) (st w))\<rparr>)"
  by (rule exec_last) (simp_all add: send_email_alert_returns [OF assms])

section \<open>Runs of critical and high severity\<close>

text \<open>
  C2, as the claim states it, fails: a run whose assessed severity is "Critical" goes
  from the audit log to the emergency-response stage and on to the notification; the
  human-verification stage, the only one that writes \<open>human_approved\<close>, is not entered,
  and the field ends as the initial state had it, false.
\<close>

theorem severe_run_not_auto_approved:
  "visited (exec Blocking (sample_env ''Critical'' None ''2024-05-01 10:00:00'') Get_weather
       (blocking_world ''Cairo'' []))
     = [Get_weather, Analyze_disaster, Assess_severity, Data_logging, Emergency_response,
        Send_email_alert]
 \<and> map_option severity
       (final_state (exec Blocking (sample_env ''Critical'' None ''2024-05-01 10:00:00'') Get_weather
          (blocking_world ''Cairo'' [])))
     = Some ''Critical''
 \<and> map_option human_approved
       (final_state (exec Blocking (sample_env ''Critical'' None ''2024-05-01 10:00:00'') Get_weather
          (blocking_world ''Cairo'' [])))
     \<noteq> Some (Some True)
 \<and> map_option human_approved
       (final_state (exec Web (sample_env ''Critical'' None ''2024-05-01 10:00:00'') Get_weather
          (web_world ''Cairo'' Map.empty)))
     \<noteq> Some (Some True)"
  by code_simp

text \<open>
  C2, amended. For every run, in either mode, whose assessed severity is "critical" or
  "high" once stripped and lowercased, the nodes entered are the three analysis stages,
  the audit log, the emergency-response stage and the notification stage, in this order:
  the notification is reached without the human-verification stage or the park node,
  and \<open>human_approved\<close> keeps the value it had at the start of the run.
\<close>

theorem severe_run_goes_straight_to_notification:
  assumes "s3 = assess_severity e (analyze_disaster_type e (get_weather_data e (st w)))"
    and "py_lower (py_strip (severity s3)) = ''critical'' \<or> py_lower (py_strip (severity s3)) = ''high''"
  shows "\<exists>w'. exec m e Get_weather w =
            Returns ([Get_weather, Analyze_disaster, Assess_severity, Data_logging,
                      Emergency_response, Send_email_alert], w')
          \<and> human_approved (st w') = human_approved (st w)
          \<and> severity (st w') = severity s3"
proof -
  let ?w1 = "w\<lparr>st := get_weather_data e (st w)\<rparr>"
  let ?w2 = "?w1\<lparr>st := analyze_disaster_type e (st ?w1)\<rparr>"
  let ?w3 = "?w2\<lparr>st := assess_severity e (st ?w2)\<rparr>"
  let ?w4 = "?w3\<lparr>st := data_logging e (st ?w3)\<rparr>"
  let ?w5 = "?w4\<lparr>st := emergency_response e (st ?w4)\<rparr>"
  have route: "route_response (data_logging e
      (assess_severity e (analyze_disaster_type e (get_weather_data e (st w))))) = Emergency_response"
    using assms by (auto simp: route_response_def Let_def)
  have pop: "weather_data (st ?w5) \<noteq> None"
    by simp
  note last = exec_Send_email_alert [OF pop, of m e]
  have e5: "exec m e Emergency_response ?w4 =
      (case exec m e Send_email_alert ?w5 of
         Returns (path, w'') \<Rightarrow> Returns (Emergency_response # path, w'')
       | Raises x \<Rightarrow> Raises x | Hangs \<Rightarrow> Hangs)"
    by (rule exec_step) simp_all
  have e4: "exec m e Data_logging ?w3 =
      (case exec m e Emergency_response ?w4 of
         Returns (path, w'') \<Rightarrow> Returns (Data_logging # path, w'')
       | Raises x \<Rightarrow> Raises x | Hangs \<Rightarrow> Hangs)"
    by (rule exec_step) (simp_all add: route)
  have e3: "exec m e Assess_severity ?w2 =
      (case exec m e Data_logging ?w3 of
         Returns (path, w'') \<Rightarrow> Returns (Assess_severity # path, w'')
       | Raises x \<Rightarrow> Raises x | Hangs \<Rightarrow> Hangs)"
    by (rule exec_step) simp_all
  have e2: "exec m e Analyze_disaster ?w1 =
      (case exec m e Assess_severity ?w2 of
         Returns (path, w'') \<Rightarrow> Returns (Analyze_disaster # path, w'')
       | Raises x \<Rightarrow> Raises x | Hangs \<Rightarrow> Hangs)"
    by (rule exec_step) simp_all
  have e1: "exec m e Get_weather w =
      (case exec m e Analyze_disaster ?w1 of
         Returns (path, w'') \<Rightarrow> Returns (Get_weather # path, w'')
       | Raises x \<Rightarrow> Raises x | Hangs \<Rightarrow> Hangs)"
    by (rule exec_step) simp_all
  show ?thesis
    unfolding e1 e2 e3 e4 e5 last using assms(1)
    by (cases "smtp e") simp_all
qed

theorem severe_run_goes_straight_to_notification_witness:
  "\<exists>w'. exec Blocking (sample_env ''High'' None ''2024-05-01 10:00:00'') Get_weather
            (blocking_world ''Cairo'' [])
          = Returns ([Get_weather, Analyze_disaster, Assess_severity, Data_logging,
                      Emergency_response, Send_email_alert], w')
        \<and> human_approved (st w') = Some False \<and> severity (st w') = ''High''"
proof -
  have sev: "severity (assess_severity (sample_env ''High'' None ''2024-05-01 10:00:00'')
      (analyze_disaster_type (sample_env ''High'' None ''2024-05-01 10:00:00'')
        (get_weather_data (sample_env ''High'' None ''2024-05-01 10:00:00'')
          (st (blocking_world ''Cairo'' []))))) = ''High''"
    by code_simp
  have norm: "py_lower (py_strip ''High'') = ''high''"
    by code_simp
  have start: "human_approved (st (blocking_world ''Cairo'' [])) = Some False"
    by (simp add: blocking_world_def initial_state_def)
  show ?thesis
    using severe_run_goes_straight_to_notification
      [OF refl, of "sample_env ''High'' None ''2024-05-01 10:00:00''" "blocking_world ''Cairo'' []"
        Blocking]
    by (simp add: sev norm start)
qed

section \<open>Runs through the graph\<close>

lemma exec_web_verification_parks:
  assumes "py_lower (py_strip (severity (st w))) = ''low''
         \<or> py_lower (py_strip (severity (st w))) = ''medium''"
  shows "exec Web e Get_human_verification w =
     Returns ([Get_human_verification, Wait_for_approval],
       w\<lparr>st := add_message ''Human verification required for low/medium severity alert''
                 ((st w)\<lparr>human_approved := None,
                         verification_id := Some (city (st w) @ ''_'' @ str_int (time_ms e)),
                         needs_approval := Some True\<rparr>),
         pending_verifications :=
           (pending_verifications w)(city (st w) @ ''_'' @ str_int (time_ms e) \<mapsto> st w)\<rparr>)"
proof -
  let ?w' = "w\<lparr>st := add_message ''Human verification required for low/medium severity alert''
                 ((st w)\<lparr>human_approved := None,
                         verification_id := Some (city (st w) @ ''_'' @ str_int (time_ms e)),
                         needs_approval := Some True\<rparr>),
         pending_verifications :=
           (pending_verifications w)(city (st w) @ ''_'' @ str_int (time_ms e) \<mapsto> st w)\<rparr>"
  have stage: "apply_stage Web e Get_human_verification w = Returns ?w'"
    using assms by (auto simp: get_human_verification_web_def Let_def)
  have next_node: "successor Web Get_human_verification (st ?w') = Some Wait_for_approval"
    by (simp add: verify_approval_router_web_def)
  have park: "exec Web e Wait_for_approval ?w' = Returns ([Wait_for_approval], ?w')"
    by (rule exec_last) (simp_all add: wait_for_approval_def)
  show ?thesis
    unfolding exec_step [OF stage next_node] park by simp
qed

lemma exec_analysis_prefix:
  "exec m e Get_weather w =
     (case exec m e
             (route_response (data_logging e (assess_severity e
                (analyze_disaster_type e (get_weather_data e (st w))))))
             (w\<lparr>st := data_logging e (assess_severity e
                (analyze_disaster_type e (get_weather_data e (st w))))\<rparr>) of
        Returns (path, w'') \<Rightarrow>
          Returns (Get_weather # Analyze_disaster # Assess_severity # Data_logging # path, w'')
      | Raises x \<Rightarrow> Raises x
      | Hangs \<Rightarrow> Hangs)"
proof -
  let ?w1 = "w\<lparr>st := get_weather_data e (st w)\<rparr>"
  let ?w2 = "?w1\<lparr>st := analyze_disaster_type e (st ?w1)\<rparr>"
  let ?w3 = "?w2\<lparr>st := assess_severity e (st ?w2)\<rparr>"
  let ?w4 = "?w3\<lparr>st := data_logging e (st ?w3)\<rparr>"
  have e4: "exec m e Data_logging ?w3 =
      (case exec m e (route_response (st ?w4)) ?w4 of
         Returns (path, w'') \<Rightarrow> Returns (Data_logging # path, w'')
       | Raises x \<Rightarrow> Raises x | Hangs \<Rightarrow> Hangs)"
    by (rule exec_step) simp_all
  have e3: "exec m e Assess_severity ?w2 =
      (case exec m e Data_logging ?w3 of
         Returns (path, w'') \<Rightarrow> Returns (Assess_severity # path, w'')
       | Raises x \<Rightarrow> Raises x | Hangs \<Rightarrow> Hangs)"
    by (rule exec_step) simp_all
  have e2: "exec m e Analyze_disaster ?w1 =
      (case exec m e Assess_severity ?w2 of
         Returns (path, w'') \<Rightarrow> Returns (Analyze_disaster # path, w'')
       | Raises x \<Rightarrow> Raises x | Hangs \<Rightarrow> Hangs)"
    by (rule exec_step) simp_all
  have e1: "exec m e Get_weather w =
      (case exec m e Analyze_disaster ?w1 of
         Returns (path, w'') \<Rightarrow> Returns (Get_weather # path, w'')
       | Raises x \<Rightarrow> Raises x | Hangs \<Rightarrow> Hangs)"
    by (rule exec_step) simp_all
  show ?thesis
    unfolding e1 e2 e3 e4 by (simp split: outcome.splits)
qed

lemma exec_Civil_defense_response:
  "exec m e Civil_defense_response w =
     (case exec m e Get_human_verification (w\<lparr>st := civil_defense_response e (st w)\<rparr>) of
        Returns (path, w'') \<Rightarrow> Returns (Civil_defense_response # path, w'')
      | Raises x \<Rightarrow> Raises x
      | Hangs \<Rightarrow> Hangs)"
  by (rule exec_step) simp_all

lemma exec_Public_works_response:
  "exec m e Public_works_response w =
     (case exec m e Get_human_verification (w\<lparr>st := public_works_response e (st w)\<rparr>) of
        Returns (path, w'') \<Rightarrow> Returns (Public_works_response # path, w'')
      | Raises x \<Rightarrow> Raises x
      | Hangs \<Rightarrow> Hangs)"
  by (rule exec_step) simp_all

lemma exec_Emergency_response:
  "exec m e Emergency_response w =
     (case exec m e Send_email_alert (w\<lparr>st := emergency_response e (st w)\<rparr>) of
        Returns (path, w'') \<Rightarrow> Returns (Emergency_response # path, w'')
      | Raises x \<Rightarrow> Raises x
      | Hangs \<Rightarrow> Hangs)"
  by (rule exec_step) simp_all

lemma route_response_cases:
  "route_response s = Emergency_response \<or> route_response s = Public_works_response
   \<or> route_response s = Civil_defense_response"
  by (simp add: route_response_def Let_def)

section \<open>Suspension of low and medium severity runs\<close>




section \<open>Resuming a suspended run\<close>

text \<open>
  C4, as the claim states it, fails: resuming with approval when the mail transport
  fails ends the run with the token removed, but no notification is recorded; the
  alerts are as the snapshot had them, and only a failure entry joins the messages.
\<close>

theorem approved_resume_without_notification:
  "map_sum id alerts
     (fst (continue_with_approval failing_env ''Cairo_1'' True
        [''Cairo_1'' \<mapsto>
           (initial_state_web ''Cairo'')\<lparr>weather_data := Some sample_reading, severity := ''Low''\<rparr>]))
     = Inr []
 \<and> map_sum id messages
     (fst (continue_with_approval failing_env ''Cairo_1'' True
        [''Cairo_1'' \<mapsto>
           (initial_state_web ''Cairo'')\<lparr>weather_data := Some sample_reading, severity := ''Low''\<rparr>]))
     = Inr [SystemMessage ''Failed to send email alert: connection refused'']
 \<and> snd (continue_with_approval failing_env ''Cairo_1'' True
        [''Cairo_1'' \<mapsto>
           (initial_state_web ''Cairo'')\<lparr>weather_data := Some sample_reading, severity := ''Low''\<rparr>])
       ''Cairo_1''
     = None"
  by code_simp

text \<open>
  C4, amended. For every token present in the pending dictionary: resuming with
  approval, when the stored snapshot has a weather reading, ends the run with the token
  removed and every other entry kept; a notification is appended to the alerts when the
  dispatch succeeds, and when it fails the alerts are unchanged and the messages get a
  failure entry. Resuming with rejection ends the run with no notification recorded and
  the token removed. In both cases the decision is written into the final state.
\<close>

theorem resume_of_pending_token:
  assumes "pending v = Some snapshot"
  shows "(weather_data snapshot \<noteq> None \<longrightarrow>
           (\<exists>final. continue_with_approval e v True pending = (Inr final, pending(v := None))
              \<and> human_approved final = Some True \<and> needs_approval final = Some False
              \<and> (smtp e = None \<longrightarrow>
                    alerts final = alerts snapshot @ [''Email alert sent: '' @ alert_time e])
              \<and> (\<forall>err. smtp e = Some err \<longrightarrow>
                    alerts final = alerts snapshot
                    \<and> messages final = messages snapshot
                        @ [SystemMessage (''Failed to send email alert: '' @ err)])))
       \<and> (\<exists>final. continue_with_approval e v False pending = (Inr final, pending(v := None))
              \<and> final = handle_no_approval
                    (snapshot\<lparr>human_approved := Some False, needs_approval := Some False\<rparr>)
              \<and> alerts final = alerts snapshot
              \<and> human_approved final = Some False \<and> needs_approval final = Some False)"
proof -
  let ?s = "snapshot\<lparr>human_approved := Some True, needs_approval := Some False\<rparr>"
  have approve: "continue_with_approval e v True pending =
      (case send_email_alert e ?s of
         Inl x \<Rightarrow> (Inl x, pending)
       | Inr final \<Rightarrow> (Inr final, pending(v := None)))"
    using assms by (simp add: continue_with_approval_def)
  have reject: "continue_with_approval e v False pending =
      (Inr (handle_no_approval
              (snapshot\<lparr>human_approved := Some False, needs_approval := Some False\<rparr>)),
       pending(v := None))"
    using assms by (simp add: continue_with_approval_def)
  have sent: "weather_data snapshot \<noteq> None \<Longrightarrow>
      send_email_alert e ?s =
        Inr (case smtp e of
               None \<Rightarrow> (add_message (''Successfully sent weather alert email for '' @ city ?s) ?s)
                         \<lparr>alerts := alerts ?s @ [''Email alert sent: '' @ alert_time e]\<rparr>
             | Some err \<Rightarrow> add_message (''Failed to send email alert: '' @ err) ?s)"
    by (rule send_email_alert_returns) simp
  show ?thesis
    unfolding approve reject
    by (cases "smtp e") (auto simp: sent handle_no_approval_def)
qed

theorem resume_of_pending_token_witness:
  "(\<exists>final.
      continue_with_approval (sample_env ''Low'' None ''2024-05-01 10:00:00'') ''Cairo_1'' True
        [''Cairo_1'' \<mapsto>
           (initial_state_web ''Cairo'')\<lparr>weather_data := Some sample_reading, severity := ''Low''\<rparr>]
        = (Inr final,
           [''Cairo_1'' \<mapsto>
              (initial_state_web ''Cairo'')\<lparr>weather_data := Some sample_reading, severity := ''Low''\<rparr>]
             (''Cairo_1'' := None))
    \<and> alerts final = [''Email alert sent: 2024-05-01 10:00:00''])
 \<and> (\<exists>final.
      continue_with_approval (sample_env ''Low'' None ''2024-05-01 10:00:00'') ''Cairo_1'' False
        [''Cairo_1'' \<mapsto>
           (initial_state_web ''Cairo'')\<lparr>weather_data := Some sample_reading, severity := ''Low''\<rparr>]
        = (Inr final,
           [''Cairo_1'' \<mapsto>
              (initial_state_web ''Cairo'')\<lparr>weather_data := Some sample_reading, severity := ''Low''\<rparr>]
             (''Cairo_1'' := None))
    \<and> alerts final = [])"
proof -
  have env: "smtp (sample_env ''Low'' None ''2024-05-01 10:00:00'') = None"
    "alert_time (sample_env ''Low'' None ''2024-05-01 10:00:00'') = ''2024-05-01 10:00:00''"
    by (simp_all add: sample_env_def)
  have snap:
    "weather_data ((initial_state_web ''Cairo'')
       \<lparr>weather_data := Some sample_reading, severity := ''Low''\<rparr>) \<noteq> None"
    "alerts ((initial_state_web ''Cairo'')
       \<lparr>weather_data := Some sample_reading, severity := ''Low''\<rparr>) = []"
    by (simp_all add: initial_state_web_def)
  have present:
    "[''Cairo_1'' \<mapsto>
        (initial_state_web ''Cairo'')\<lparr>weather_data := Some sample_reading, severity := ''Low''\<rparr>]
       ''Cairo_1''
     = Some ((initial_state_web ''Cairo'')\<lparr>weather_data := Some sample_reading, severity := ''Low''\<rparr>)"
    by simp
  show ?thesis
    using resume_of_pending_token
      [of "[''Cairo_1'' \<mapsto>
             (initial_state_web ''Cairo'')\<lparr>weather_data := Some sample_reading, severity := ''Low''\<rparr>]"
        "''Cairo_1''"
        "(initial_state_web ''Cairo'')\<lparr>weather_data := Some sample_reading, severity := ''Low''\<rparr>"
        "sample_env ''Low'' None ''2024-05-01 10:00:00''"]
      present env snap
    by auto
qed

lemma exec_web_verification_auto:
  assumes "py_lower (py_strip (severity (st w))) \<noteq> ''low''"
    and "py_lower (py_strip (severity (st w))) \<noteq> ''medium''"
    and "weather_data (st w) \<noteq> None"
  shows "\<exists>w'. exec Web e Get_human_verification w =
           Returns ([Get_human_verification, Send_email_alert], w')"
proof -
  let ?w' = "w\<lparr>st := add_message
      (''Auto-approved '' @ py_lower (py_strip (severity (st w))) @ '' severity alert'')
      ((st w)\<lparr>human_approved := Some True, needs_approval := Some False\<rparr>)\<rparr>"
  have stage: "apply_stage Web e Get_human_verification w = Returns ?w'"
    using assms(1,2) by (simp add: get_human_verification_web_def Let_def)
  have next_node: "successor Web Get_human_verification (st ?w') = Some Send_email_alert"
    by (simp add: verify_approval_router_web_def)
  have pop: "weather_data (st ?w') \<noteq> None"
    using assms(3) by simp
  show ?thesis
    unfolding exec_step [OF stage next_node] exec_Send_email_alert [OF pop] by simp
qed

lemma exec_web_verification_returns:
  assumes "weather_data (st w) \<noteq> None"
  shows "\<exists>n w'. exec Web e Get_human_verification w = Returns ([Get_human_verification, n], w')
           \<and> (n = Send_email_alert \<or> n = Wait_for_approval)"
proof (cases "py_lower (py_strip (severity (st w))) = ''low''
            \<or> py_lower (py_strip (severity (st w))) = ''medium''")
  case True
  then show ?thesis
    by (simp add: exec_web_verification_parks)
next
  case False
  then show ?thesis
    using exec_web_verification_auto [of w e] assms by auto
qed

lemma exec_blocking_verification:
  assumes "weather_data (st w) \<noteq> None"
  shows "exec Blocking e Get_human_verification w = Hangs
       \<and> py_lower (py_strip (severity (st w))) \<in> {''low'', ''medium''}
       \<and> read_decision (console w) = None
     \<or> (\<exists>n w'. exec Blocking e Get_human_verification w = Returns ([Get_human_verification, n], w')
           \<and> (n = Send_email_alert \<or> n = Handle_no_approval))"
proof (cases "get_human_verification (st w) (console w)")
  case (Returns r)
  obtain s' rest where r: "r = (s', rest)"
    by (cases r)
  let ?w' = "w\<lparr>st := s', console := rest\<rparr>"
  have stage: "apply_stage Blocking e Get_human_verification w = Returns ?w'"
    using Returns r by simp
  have pop: "weather_data s' \<noteq> None"
    using Returns r assms
    by (auto simp: get_human_verification_def Let_def split: if_splits option.splits)
  show ?thesis
  proof (cases "human_approved s' = Some True")
    case True
    then have next_node: "successor Blocking Get_human_verification (st ?w') = Some Send_email_alert"
      by (simp add: verify_approval_router_def)
    have pop': "weather_data (st ?w') \<noteq> None"
      using pop by simp
    show ?thesis
      unfolding exec_step [OF stage next_node] exec_Send_email_alert [OF pop'] by simp
  next
    case False
    then have next_node:
      "successor Blocking Get_human_verification (st ?w') = Some Handle_no_approval"
      by (simp add: verify_approval_router_def)
    have last: "exec Blocking e Handle_no_approval ?w' =
        Returns ([Handle_no_approval], ?w'\<lparr>st := handle_no_approval (st ?w')\<rparr>)"
      by (rule exec_last) simp_all
    show ?thesis
      unfolding exec_step [OF stage next_node] last by simp
  qed
next
  case (Raises x)
  then show ?thesis
    using assms
    by (auto simp: get_human_verification_def Let_def split: if_splits option.splits)
next
  case Hangs
  then have "apply_stage Blocking e Get_human_verification w = Hangs"
    by simp
  then have "exec Blocking e Get_human_verification w = Hangs"
    by (simp add: exec.simps [of Blocking e Get_human_verification w])
  moreover have "py_lower (py_strip (severity (st w))) \<in> {''low'', ''medium''}
      \<and> read_decision (console w) = None"
    using Hangs
    by (auto simp: get_human_verification_def Let_def split: if_splits option.splits)
  ultimately show ?thesis
    by simp
qed

lemma web_run_from_router:
  assumes "weather_data (st w) \<noteq> None"
  shows "\<exists>path n w'. exec Web e (route_response (st w)) w = Returns (path @ [n], w')
           \<and> (n = Send_email_alert \<or> n = Wait_for_approval)"
proof -
  consider "route_response (st w) = Emergency_response"
    | "route_response (st w) = Public_works_response"
    | "route_response (st w) = Civil_defense_response"
    using route_response_cases [of "st w"] by blast
  then show ?thesis
  proof cases
    case 1
    have pop: "weather_data (st (w\<lparr>st := emergency_response e (st w)\<rparr>)) \<noteq> None"
      using assms by simp
    have "\<exists>w'. exec Web e (route_response (st w)) w =
        Returns ([Emergency_response] @ [Send_email_alert], w')"
      unfolding 1 exec_Emergency_response exec_Send_email_alert [OF pop] by simp
    then show ?thesis
      by blast
  next
    case 2
    have pop: "weather_data (st (w\<lparr>st := public_works_response e (st w)\<rparr>)) \<noteq> None"
      using assms by simp
    obtain n w' where
      "exec Web e Get_human_verification (w\<lparr>st := public_works_response e (st w)\<rparr>)
         = Returns ([Get_human_verification, n], w')"
      and "n = Send_email_alert \<or> n = Wait_for_approval"
      using exec_web_verification_returns [OF pop] by blast
    then have "exec Web e (route_response (st w)) w =
        Returns ([Public_works_response, Get_human_verification] @ [n], w')
        \<and> (n = Send_email_alert \<or> n = Wait_for_approval)"
      unfolding 2 exec_Public_works_response by simp
    then show ?thesis
      by blast
  next
    case 3
    have pop: "weather_data (st (w\<lparr>st := civil_defense_response e (st w)\<rparr>)) \<noteq> None"
      using assms by simp
    obtain n w' where
      "exec Web e Get_human_verification (w\<lparr>st := civil_defense_response e (st w)\<rparr>)
         = Returns ([Get_human_verification, n], w')"
      and "n = Send_email_alert \<or> n = Wait_for_approval"
      using exec_web_verification_returns [OF pop] by blast
    then have "exec Web e (route_response (st w)) w =
        Returns ([Civil_defense_response, Get_human_verification] @ [n], w')
        \<and> (n = Send_email_alert \<or> n = Wait_for_approval)"
      unfolding 3 exec_Civil_defense_response by simp
    then show ?thesis
      by blast
  qed
qed

lemma web_run_completes:
  "\<exists>path n w'. exec Web e Get_weather w =
       Returns (Get_weather # Analyze_disaster # Assess_severity # Data_logging # path @ [n], w')
     \<and> (n = Send_email_alert \<or> n = Wait_for_approval)"
proof -
  let ?s4 = "data_logging e (assess_severity e (analyze_disaster_type e (get_weather_data e (st w))))"
  have pop: "weather_data (st (w\<lparr>st := ?s4\<rparr>)) \<noteq> None"
    by simp
  obtain path n w' where
    "exec Web e (route_response (st (w\<lparr>st := ?s4\<rparr>))) (w\<lparr>st := ?s4\<rparr>) = Returns (path @ [n], w')"
    and "n = Send_email_alert \<or> n = Wait_for_approval"
    using web_run_from_router [OF pop] by blast
  then have "exec Web e Get_weather w =
       Returns (Get_weather # Analyze_disaster # Assess_severity # Data_logging # path @ [n], w')
     \<and> (n = Send_email_alert \<or> n = Wait_for_approval)"
    unfolding exec_analysis_prefix [of Web e w] by simp
  then show ?thesis
    by blast
qed

lemma blocking_run_from_router:
  assumes "weather_data (st w) \<noteq> None"
  shows "exec Blocking e (route_response (st w)) w = Hangs \<and> read_decision (console w) = None
     \<or> (\<exists>path n w'. exec Blocking e (route_response (st w)) w = Returns (path @ [n], w')
           \<and> (n = Send_email_alert \<or> n = Handle_no_approval))"
proof -
  consider "route_response (st w) = Emergency_response"
    | "route_response (st w) = Public_works_response"
    | "route_response (st w) = Civil_defense_response"
    using route_response_cases [of "st w"] by blast
  then show ?thesis
  proof cases
    case 1
    have pop: "weather_data (st (w\<lparr>st := emergency_response e (st w)\<rparr>)) \<noteq> None"
      using assms by simp
    have "\<exists>w'. exec Blocking e (route_response (st w)) w =
        Returns ([Emergency_response] @ [Send_email_alert], w')"
      unfolding 1 exec_Emergency_response exec_Send_email_alert [OF pop] by simp
    then show ?thesis
      by blast
  next
    case 2
    let ?w5 = "w\<lparr>st := public_works_response e (st w)\<rparr>"
    have pop: "weather_data (st ?w5) \<noteq> None"
      using assms by simp
    from exec_blocking_verification [OF pop, of e] show ?thesis
    proof
      assume "exec Blocking e Get_human_verification ?w5 = Hangs
        \<and> py_lower (py_strip (severity (st ?w5))) \<in> {''low'', ''medium''}
        \<and> read_decision (console ?w5) = None"
      then show ?thesis
        unfolding 2 exec_Public_works_response by simp
    next
      assume "\<exists>n w'. exec Blocking e Get_human_verification ?w5
            = Returns ([Get_human_verification, n], w')
          \<and> (n = Send_email_alert \<or> n = Handle_no_approval)"
      then obtain n w' where
        "exec Blocking e Get_human_verification ?w5 = Returns ([Get_human_verification, n], w')"
        and "n = Send_email_alert \<or> n = Handle_no_approval"
        by blast
      then have "exec Blocking e (route_response (st w)) w =
          Returns ([Public_works_response, Get_human_verification] @ [n], w')
          \<and> (n = Send_email_alert \<or> n = Handle_no_approval)"
        unfolding 2 exec_Public_works_response by simp
      then show ?thesis
        by blast
    qed
  next
    case 3
    let ?w5 = "w\<lparr>st := civil_defense_response e (st w)\<rparr>"
    have pop: "weather_data (st ?w5) \<noteq> None"
      using assms by simp
    from exec_blocking_verification [OF pop, of e] show ?thesis
    proof
      assume "exec Blocking e Get_human_verification ?w5 = Hangs
        \<and> py_lower (py_strip (severity (st ?w5))) \<in> {''low'', ''medium''}
        \<and> read_decision (console ?w5) = None"
      then show ?thesis
        unfolding 3 exec_Civil_defense_response by simp
    next
      assume "\<exists>n w'. exec Blocking e Get_human_verification ?w5
            = Returns ([Get_human_verification, n], w')
          \<and> (n = Send_email_alert \<or> n = Handle_no_approval)"
      then obtain n w' where
        "exec Blocking e Get_human_verification ?w5 = Returns ([Get_human_verification, n], w')"
        and "n = Send_email_alert \<or> n = Handle_no_approval"
        by blast
      then have "exec Blocking e (route_response (st w)) w =
          Returns ([Civil_defense_response, Get_human_verification] @ [n], w')
          \<and> (n = Send_email_alert \<or> n = Handle_no_approval)"
        unfolding 3 exec_Civil_defense_response by simp
      then show ?thesis
        by blast
    qed
  qed
qed

lemma blocking_run_outcome:
  "exec Blocking e Get_weather w = Hangs \<and> read_decision (console w) = None
     \<or> (\<exists>path n w'. exec Blocking e Get_weather w =
           Returns (Get_weather # Analyze_disaster # Assess_severity # Data_logging # path @ [n], w')
         \<and> (n = Send_email_alert \<or> n = Handle_no_approval))"
proof -
  let ?s4 = "data_logging e (assess_severity e (analyze_disaster_type e (get_weather_data e (st w))))"
  let ?w4 = "w\<lparr>st := ?s4\<rparr>"
  have pop: "weather_data (st ?w4) \<noteq> None"
    by simp
  from blocking_run_from_router [OF pop, of e] show ?thesis
  proof
    assume "exec Blocking e (route_response (st ?w4)) ?w4 = Hangs
      \<and> read_decision (console ?w4) = None"
    then show ?thesis
      unfolding exec_analysis_prefix [of Blocking e w] by simp
  next
    assume "\<exists>path n w'. exec Blocking e (route_response (st ?w4)) ?w4 = Returns (path @ [n], w')
      \<and> (n = Send_email_alert \<or> n = Handle_no_approval)"
    then obtain path n w' where
      "exec Blocking e (route_response (st ?w4)) ?w4 = Returns (path @ [n], w')"
      and "n = Send_email_alert \<or> n = Handle_no_approval"
      by blast
    then have "exec Blocking e Get_weather w =
         Returns (Get_weather # Analyze_disaster # Assess_severity # Data_logging # path @ [n], w')
       \<and> (n = Send_email_alert \<or> n = Handle_no_approval)"
      unfolding exec_analysis_prefix [of Blocking e w] by simp
    then show ?thesis
      by blast
  qed
qed

section \<open>Failures inside a stage\<close>

text \<open>
  C7, as the claim states it, fails in the blocking verification stage: an exception of
  \<open>input()\<close> is caught there, printed, and the read is repeated, so the failure leaves
  no entry in the messages; and when the console only ever fails, the stage never
  returns and the run does not reach a terminal node.
\<close>

theorem console_failure_leaves_no_trace:
  "get_human_verification
     ((initial_state ''Cairo'')\<lparr>weather_data := Some sample_reading, severity := ''Low''\<rparr>)
     [Input_error ''EOF when reading a line'', Line ''y'']
     = Returns
         ((initial_state ''Cairo'')
            \<lparr>weather_data := Some sample_reading, severity := ''Low'',
             human_approved := Some True,
             messages := [SystemMessage ''Human verification: Approved'']\<rparr>, [])
 \<and> hangs (exec Blocking (sample_env ''Low'' None ''2024-05-01 10:00:00'') Get_weather
       (blocking_world ''Cairo''
          [Input_error ''EOF when reading a line'', Input_error ''EOF when reading a line'']))"
  by code_simp

text \<open>
  C7, amended. For every stage that calls the weather provider, the model, the audit
  file or the mail transport, and every failure of that call, the stage returns the
  state it was given with the error sentinel written into its field (the all-"N/A"
  reading, "Analysis Failed", "Assessment Failed", "Failed to generate response plan";
  the audit and notification stages have no such field) and one failure entry appended
  to the messages, and nothing else changed. A failed read of the operator's answer is
  skipped and the read repeated. Whatever fails, a run of the web graph passes the three
  analysis stages and the audit log and ends at a terminal node; a run of the blocking
  graph does the same unless the operator never gives a valid answer. No run is aborted
  by an exception.
\<close>

theorem stage_failures_are_absorbed:
  "(fetch e (city s) = Inl x \<longrightarrow>
      get_weather_data e s =
        s\<lparr>weather_data := Some error_data,
          messages := messages s
            @ [SystemMessage (''Failed to fetch weather data for '' @ city s @ '': '' @ x)]\<rparr>)
 \<and> (llm e (Disaster_prompt (weather_data s)) = Inl x \<longrightarrow>
      analyze_disaster_type e s =
        s\<lparr>disaster_type := ''Analysis Failed'',
          messages := messages s @ [SystemMessage (''Failed to analyze disaster type: '' @ x)]\<rparr>)
 \<and> (llm e (Severity_prompt (weather_data s) (disaster_type s)) = Inl x \<longrightarrow>
      assess_severity e s =
        s\<lparr>severity := ''Assessment Failed'',
          messages := messages s @ [SystemMessage (''Failed to assess severity: '' @ x)]\<rparr>)
 \<and> (llm e (Emergency_prompt (disaster_type s) (severity s) (city s)) = Inl x \<longrightarrow>
      emergency_response e s =
        s\<lparr>response := ''Failed to generate response plan'',
          messages := messages s
            @ [SystemMessage (''Failed to generate emergency response: '' @ x)]\<rparr>)
 \<and> (llm e (Civil_defense_prompt (disaster_type s) (severity s) (city s)) = Inl x \<longrightarrow>
      civil_defense_response e s =
        s\<lparr>response := ''Failed to generate response plan'',
          messages := messages s
            @ [SystemMessage (''Failed to generate civil defense response: '' @ x)]\<rparr>)
 \<and> (llm e (Public_works_prompt (disaster_type s) (severity s) (city s)) = Inl x \<longrightarrow>
      public_works_response e s =
        s\<lparr>response := ''Failed to generate response plan'',
          messages := messages s
            @ [SystemMessage (''Failed to generate public works response: '' @ x)]\<rparr>)
 \<and> (log_io e = Some x \<longrightarrow>
      data_logging e s =
        s\<lparr>messages := messages s @ [SystemMessage (''Failed to log data: '' @ x)]\<rparr>)
 \<and> (smtp e = Some x \<and> weather_data s \<noteq> None \<longrightarrow>
      send_email_alert e s =
        Inr (s\<lparr>messages := messages s @ [SystemMessage (''Failed to send email alert: '' @ x)]\<rparr>))
 \<and> read_decision (Input_error x # inputs) = read_decision inputs
 \<and> (\<exists>path n w'.
      exec Web e Get_weather (web_world c pending) =
        Returns (Get_weather # Analyze_disaster # Assess_severity # Data_logging # path @ [n], w')
      \<and> (n = Send_email_alert \<or> n = Wait_for_approval))
 \<and> (exec Blocking e Get_weather (blocking_world c inputs) = Hangs
        \<and> read_decision inputs = None
      \<or> (\<exists>path n w'.
            exec Blocking e Get_weather (blocking_world c inputs) =
              Returns (Get_weather # Analyze_disaster # Assess_severity # Data_logging
                         # path @ [n], w')
            \<and> (n = Send_email_alert \<or> n = Handle_no_approval)))"
proof -
  have fetch_fails: "fetch e (city s) = Inl x \<longrightarrow>
      get_weather_data e s =
        s\<lparr>weather_data := Some error_data,
          messages := messages s
            @ [SystemMessage (''Failed to fetch weather data for '' @ city s @ '': '' @ x)]\<rparr>"
    by (simp add: get_weather_data_def add_message_def)
  have model_fails:
    "llm e (Disaster_prompt (weather_data s)) = Inl x \<longrightarrow>
      analyze_disaster_type e s =
        s\<lparr>disaster_type := ''Analysis Failed'',
          messages := messages s @ [SystemMessage (''Failed to analyze disaster type: '' @ x)]\<rparr>"
    "llm e (Severity_prompt (weather_data s) (disaster_type s)) = Inl x \<longrightarrow>
      assess_severity e s =
        s\<lparr>severity := ''Assessment Failed'',
          messages := messages s @ [SystemMessage (''Failed to assess severity: '' @ x)]\<rparr>"
    "llm e (Emergency_prompt (disaster_type s) (severity s) (city s)) = Inl x \<longrightarrow>
      emergency_response e s =
        s\<lparr>response := ''Failed to generate response plan'',
          messages := messages s
            @ [SystemMessage (''Failed to generate emergency response: '' @ x)]\<rparr>"
    "llm e (Civil_defense_prompt (disaster_type s) (severity s) (city s)) = Inl x \<longrightarrow>
      civil_defense_response e s =
        s\<lparr>response := ''Failed to generate response plan'',
          messages := messages s
            @ [SystemMessage (''Failed to generate civil defense response: '' @ x)]\<rparr>"
    "llm e (Public_works_prompt (disaster_type s) (severity s) (city s)) = Inl x \<longrightarrow>
      public_works_response e s =
        s\<lparr>response := ''Failed to generate response plan'',
          messages := messages s
            @ [SystemMessage (''Failed to generate public works response: '' @ x)]\<rparr>"
    by (simp_all add: analyze_disaster_type_def assess_severity_def emergency_response_def
        civil_defense_response_def public_works_response_def add_message_def)
  have io_fails:
    "log_io e = Some x \<longrightarrow>
      data_logging e s =
        s\<lparr>messages := messages s @ [SystemMessage (''Failed to log data: '' @ x)]\<rparr>"
    "smtp e = Some x \<and> weather_data s \<noteq> None \<longrightarrow>
      send_email_alert e s =
        Inr (s\<lparr>messages := messages s @ [SystemMessage (''Failed to send email alert: '' @ x)]\<rparr>)"
    by (auto simp: data_logging_def send_email_alert_returns add_message_def)
  have web: "\<exists>path n w'.
      exec Web e Get_weather (web_world c pending) =
        Returns (Get_weather # Analyze_disaster # Assess_severity # Data_logging # path @ [n], w')
      \<and> (n = Send_email_alert \<or> n = Wait_for_approval)"
    by (rule web_run_completes)
  have blocking: "exec Blocking e Get_weather (blocking_world c inputs) = Hangs
        \<and> read_decision inputs = None
      \<or> (\<exists>path n w'.
            exec Blocking e Get_weather (blocking_world c inputs) =
              Returns (Get_weather # Analyze_disaster # Assess_severity # Data_logging
                         # path @ [n], w')
            \<and> (n = Send_email_alert \<or> n = Handle_no_approval))"
    using blocking_run_outcome [of e "blocking_world c inputs"]
    by (simp add: blocking_world_def)
  have retry: "read_decision (Input_error x # inputs) = read_decision inputs"
    by simp
  show ?thesis
    using fetch_fails model_fails io_fails retry web blocking by blast
qed

theorem stage_failures_are_absorbed_witness:
  "get_weather_data failing_env (initial_state ''Cairo'') =
     (initial_state ''Cairo'')
       \<lparr>weather_data := Some error_data,
        messages := [SystemMessage ''Failed to fetch weather data for Cairo: timeout'']\<rparr>
 \<and> analyze_disaster_type failing_env (initial_state ''Cairo'') =
     (initial_state ''Cairo'')
       \<lparr>disaster_type := ''Analysis Failed'',
        messages := [SystemMessage ''Failed to analyze disaster type: quota exceeded'']\<rparr>
 \<and> assess_severity failing_env (initial_state ''Cairo'') =
     (initial_state ''Cairo'')
       \<lparr>severity := ''Assessment Failed'',
        messages := [SystemMessage ''Failed to assess severity: quota exceeded'']\<rparr>
 \<and> civil_defense_response failing_env (initial_state ''Cairo'') =
     (initial_state ''Cairo'')
       \<lparr>response := ''Failed to generate response plan'',
        messages := [SystemMessage ''Failed to generate civil defense response: quota exceeded'']\<rparr>
 \<and> data_logging failing_env (initial_state ''Cairo'') =
     (initial_state ''Cairo'')\<lparr>messages := [SystemMessage ''Failed to log data: disk full'']\<rparr>
 \<and> send_email_alert failing_env ((initial_state ''Cairo'')\<lparr>weather_data := Some error_data\<rparr>) =
     Inr ((initial_state ''Cairo'')
       \<lparr>weather_data := Some error_data,
        messages := [SystemMessage ''Failed to send email alert: connection refused'']\<rparr>)
 \<and> (\<exists>path n w'.
      exec Web failing_env Get_weather (web_world ''Cairo'' Map.empty) =
        Returns (Get_weather # Analyze_disaster # Assess_severity # Data_logging # path @ [n], w')
      \<and> (n = Send_email_alert \<or> n = Wait_for_approval))
 \<and> (\<exists>path n w'.
      exec Blocking failing_env Get_weather (blocking_world ''Cairo'' [Line ''y'']) =
        Returns (Get_weather # Analyze_disaster # Assess_severity # Data_logging # path @ [n], w')
      \<and> (n = Send_email_alert \<or> n = Handle_no_approval))"
proof -
  have env: "fetch failing_env ''Cairo'' = Inl ''timeout''"
    "\<And>p. llm failing_env p = Inl ''quota exceeded''"
    "log_io failing_env = Some ''disk full''"
    "smtp failing_env = Some ''connection refused''"
    by (simp_all add: failing_env_def)
  have start: "city (initial_state ''Cairo'') = ''Cairo''" "messages (initial_state ''Cairo'') = []"
    by (simp_all add: initial_state_def)
  have answered: "read_decision [Line ''y''] \<noteq> None"
    by code_simp
  show ?thesis
    using
      stage_failures_are_absorbed
        [where e = failing_env and s = "initial_state ''Cairo''" and x = "''timeout''"
           and c = "''Cairo''" and pending = Map.empty and inputs = "[Line ''y'']"]
      stage_failures_are_absorbed
        [where e = failing_env and s = "initial_state ''Cairo''" and x = "''quota exceeded''"
           and c = "''Cairo''" and pending = Map.empty and inputs = "[Line ''y'']"]
      stage_failures_are_absorbed
        [where e = failing_env and s = "initial_state ''Cairo''" and x = "''disk full''"
           and c = "''Cairo''" and pending = Map.empty and inputs = "[Line ''y'']"]
      stage_failures_are_absorbed
        [where e = failing_env
           and s = "(initial_state ''Cairo'')\<lparr>weather_data := Some error_data\<rparr>"
           and x = "''connection refused''"
           and c = "''Cairo''" and pending = Map.empty and inputs = "[Line ''y'']"]
    by (simp add: env start answered del: read_decision.simps)
qed

section \<open>The same run under two clocks\<close>

lemma alike_step:
  assumes "alike_up_to_alert_time e1 e2 a r1 r2"
  shows "alike_up_to_alert_time e1 e2 a
     (case r1 of Returns (path, w'') \<Rightarrow> Returns (n # path, w'') | Raises x \<Rightarrow> Raises x
        | Hangs \<Rightarrow> Hangs)
     (case r2 of Returns (path, w'') \<Rightarrow> Returns (n # path, w'') | Raises x \<Rightarrow> Raises x
        | Hangs \<Rightarrow> Hangs)"
  using assms unfolding alike_up_to_alert_time_def by auto

lemma alike_same:
  assumes "r = Returns (path, w)" and "alerts (st w) = a"
  shows "alike_up_to_alert_time e1 e2 a r r"
  using assms unfolding alike_up_to_alert_time_def by auto

lemma alike_Send_email_alert:
  assumes "weather_data (st w) \<noteq> None" and "smtp e1 = smtp e2"
  shows "alike_up_to_alert_time e1 e2 (alerts (st w))
     (exec Blocking e1 Send_email_alert w) (exec Blocking e2 Send_email_alert w)"
  unfolding exec_Send_email_alert [OF assms(1)] alike_up_to_alert_time_def
  using assms(2) by (cases "smtp e2") (simp_all add: add_message_def)

lemma alike_Handle_no_approval:
  "alike_up_to_alert_time e1 e2 (alerts (st w))
     (exec Blocking e1 Handle_no_approval w) (exec Blocking e2 Handle_no_approval w)"
proof -
  have "\<And>e. exec Blocking e Handle_no_approval w =
      Returns ([Handle_no_approval], w\<lparr>st := handle_no_approval (st w)\<rparr>)"
    by (rule exec_last) simp_all
  then show ?thesis
    by (simp add: alike_up_to_alert_time_def handle_no_approval_def)
qed

lemma get_human_verification_frame:
  assumes "get_human_verification s inputs = Returns (s', rest)"
  shows "alerts s' = alerts s" and "weather_data s' = weather_data s"
  using assms
  by (auto simp: get_human_verification_def Let_def split: if_splits option.splits)

lemma alike_Get_human_verification:
  assumes "weather_data (st w) \<noteq> None" and "smtp e1 = smtp e2"
  shows "alike_up_to_alert_time e1 e2 (alerts (st w))
     (exec Blocking e1 Get_human_verification w) (exec Blocking e2 Get_human_verification w)"
proof (cases "get_human_verification (st w) (console w)")
  case (Returns r)
  obtain s' rest where r: "r = (s', rest)"
    by (cases r)
  let ?w' = "w\<lparr>st := s', console := rest\<rparr>"
  have stage: "\<And>e. apply_stage Blocking e Get_human_verification w = Returns ?w'"
    using Returns r by simp
  have frame: "alerts s' = alerts (st w)" "weather_data (st ?w') \<noteq> None"
    using get_human_verification_frame [of "st w" "console w" s' rest] Returns r assms(1)
    by simp_all
  show ?thesis
  proof (cases "human_approved s' = Some True")
    case True
    then have next_node:
      "successor Blocking Get_human_verification (st ?w') = Some Send_email_alert"
      by (simp add: verify_approval_router_def)
    show ?thesis
      unfolding exec_step [OF stage next_node]
      using alike_step [OF alike_Send_email_alert [OF frame(2) assms(2)]] frame(1)
      by simp
  next
    case False
    then have next_node:
      "successor Blocking Get_human_verification (st ?w') = Some Handle_no_approval"
      by (simp add: verify_approval_router_def)
    show ?thesis
      unfolding exec_step [OF stage next_node]
      using alike_step [OF alike_Handle_no_approval [of e1 e2 ?w']] frame(1)
      by simp
  qed
next
  case (Raises x)
  then show ?thesis
    using assms(1)
    by (auto simp: get_human_verification_def Let_def split: if_splits option.splits)
next
  case Hangs
  then have "\<And>e. exec Blocking e Get_human_verification w = Hangs"
    by (simp add: exec.simps [of Blocking _ Get_human_verification w])
  then show ?thesis
    by (simp add: alike_up_to_alert_time_def)
qed

lemma stages_agree:
  assumes "fetch e1 = fetch e2" and "llm e1 = llm e2" and "log_io e1 = log_io e2"
  shows "get_weather_data e1 s = get_weather_data e2 s"
    and "analyze_disaster_type e1 s = analyze_disaster_type e2 s"
    and "assess_severity e1 s = assess_severity e2 s"
    and "data_logging e1 s = data_logging e2 s"
    and "emergency_response e1 s = emergency_response e2 s"
    and "civil_defense_response e1 s = civil_defense_response e2 s"
    and "public_works_response e1 s = public_works_response e2 s"
  using assms
  by (simp_all add: get_weather_data_def analyze_disaster_type_def assess_severity_def
      data_logging_def emergency_response_def civil_defense_response_def
      public_works_response_def)

lemma alike_from_router:
  assumes "weather_data (st w) \<noteq> None"
    and "fetch e1 = fetch e2" and "llm e1 = llm e2" and "log_io e1 = log_io e2"
    and "smtp e1 = smtp e2"
  shows "alike_up_to_alert_time e1 e2 (alerts (st w))
     (exec Blocking e1 (route_response (st w)) w) (exec Blocking e2 (route_response (st w)) w)"
proof -
  note agree = stages_agree [OF assms(2,3,4)]
  consider "route_response (st w) = Emergency_response"
    | "route_response (st w) = Public_works_response"
    | "route_response (st w) = Civil_defense_response"
    using route_response_cases [of "st w"] by blast
  then show ?thesis
  proof cases
    case 1
    let ?w5 = "w\<lparr>st := emergency_response e2 (st w)\<rparr>"
    have pop: "weather_data (st ?w5) \<noteq> None"
      using assms(1) by simp
    show ?thesis
      unfolding 1 exec_Emergency_response agree
      using alike_step [OF alike_Send_email_alert [OF pop assms(5)]] by simp
  next
    case 2
    let ?w5 = "w\<lparr>st := public_works_response e2 (st w)\<rparr>"
    have pop: "weather_data (st ?w5) \<noteq> None"
      using assms(1) by simp
    show ?thesis
      unfolding 2 exec_Public_works_response agree
      using alike_step [OF alike_Get_human_verification [OF pop assms(5)]] by simp
  next
    case 3
    let ?w5 = "w\<lparr>st := civil_defense_response e2 (st w)\<rparr>"
    have pop: "weather_data (st ?w5) \<noteq> None"
      using assms(1) by simp
    show ?thesis
      unfolding 3 exec_Civil_defense_response agree
      using alike_step [OF alike_Get_human_verification [OF pop assms(5)]] by simp
  qed
qed

lemma alike_runs:
  assumes "fetch e1 = fetch e2" and "llm e1 = llm e2" and "log_io e1 = log_io e2"
    and "smtp e1 = smtp e2"
  shows "alike_up_to_alert_time e1 e2 (alerts (st w))
     (exec Blocking e1 Get_weather w) (exec Blocking e2 Get_weather w)"
proof -
  note agree = stages_agree [OF assms(1,2,3)]
  let ?s4 = "data_logging e2 (assess_severity e2
      (analyze_disaster_type e2 (get_weather_data e2 (st w))))"
  have pop: "weather_data (st (w\<lparr>st := ?s4\<rparr>)) \<noteq> None"
    by simp
  have "alike_up_to_alert_time e1 e2 (alerts (st w))
     (exec Blocking e1 (route_response ?s4) (w\<lparr>st := ?s4\<rparr>))
     (exec Blocking e2 (route_response ?s4) (w\<lparr>st := ?s4\<rparr>))"
    using alike_from_router [OF pop assms] by simp
  then show ?thesis
    unfolding exec_analysis_prefix [of Blocking _ w] agree
    unfolding alike_up_to_alert_time_def by auto
qed

section \<open>Running the analysis twice\<close>

text \<open>
  C9, as the claim states it, fails: the entries of the messages carry no timestamp and
  are the same in both runs, while the alert entry carries the clock reading of its
  dispatch; with the provider and the model answering the same, two runs at different
  times end in states that differ in \<open>alerts\<close>.
\<close>

theorem reruns_differ_in_alerts:
  "fetch (sample_env ''High'' None ''2024-05-01 10:00:00'')
     = fetch (sample_env ''High'' None ''2024-05-01 10:00:07'')
 \<and> llm (sample_env ''High'' None ''2024-05-01 10:00:00'')
     = llm (sample_env ''High'' None ''2024-05-01 10:00:07'')
 \<and> map_option alerts
       (returned (run_weather_emergency_system (sample_env ''High'' None ''2024-05-01 10:00:00'')
          ''Cairo'' []))
     = Some [''Email alert sent: 2024-05-01 10:00:00'']
 \<and> map_option alerts
       (returned (run_weather_emergency_system (sample_env ''High'' None ''2024-05-01 10:00:07'')
          ''Cairo'' []))
     = Some [''Email alert sent: 2024-05-01 10:00:07'']
 \<and> map_option messages
       (returned (run_weather_emergency_system (sample_env ''High'' None ''2024-05-01 10:00:00'')
          ''Cairo'' []))
     = map_option messages
       (returned (run_weather_emergency_system (sample_env ''High'' None ''2024-05-01 10:00:07'')
          ''Cairo'' []))"
proof -
  have same_answers:
    "fetch (sample_env ''High'' None ''2024-05-01 10:00:00'')
       = fetch (sample_env ''High'' None ''2024-05-01 10:00:07'')"
    "llm (sample_env ''High'' None ''2024-05-01 10:00:00'')
       = llm (sample_env ''High'' None ''2024-05-01 10:00:07'')"
    by (simp_all add: sample_env_def)
  have first: "map_option alerts
       (returned (run_weather_emergency_system (sample_env ''High'' None ''2024-05-01 10:00:00'')
          ''Cairo'' []))
     = Some [''Email alert sent: 2024-05-01 10:00:00'']"
    by code_simp
  have second: "map_option alerts
       (returned (run_weather_emergency_system (sample_env ''High'' None ''2024-05-01 10:00:07'')
          ''Cairo'' []))
     = Some [''Email alert sent: 2024-05-01 10:00:07'']"
    by code_simp
  have trace: "map_option messages
       (returned (run_weather_emergency_system (sample_env ''High'' None ''2024-05-01 10:00:00'')
          ''Cairo'' []))
     = map_option messages
       (returned (run_weather_emergency_system (sample_env ''High'' None ''2024-05-01 10:00:07'')
          ''Cairo'' []))"
    by code_simp
  show ?thesis
    using same_answers first second trace by simp
qed

text \<open>
  C9, amended. For every location and every console input, running
  \<open>run_weather_emergency_system\<close> twice with the outcomes of the weather provider, the
  model, the audit file and the mail transport held fixed gives the same result up to
  the clock: both runs wait for the operator for ever, or both return final states that
  are identical in every field but \<open>alerts\<close>, the messages among them, and the alerts
  are both empty or are both the one alert entry, each with the clock reading of its
  own dispatch.
\<close>

theorem reruns_alike_up_to_alert_time:
  assumes "fetch e1 = fetch e2" and "llm e1 = llm e2" and "log_io e1 = log_io e2"
    and "smtp e1 = smtp e2"
  shows "hangs (run_weather_emergency_system e1 c inputs)
           \<and> hangs (run_weather_emergency_system e2 c inputs)
       \<or> (\<exists>s1 s2. run_weather_emergency_system e1 c inputs = Returns (Some s1)
             \<and> run_weather_emergency_system e2 c inputs = Returns (Some s2)
             \<and> s2 = s1\<lparr>alerts := alerts s2\<rparr>
             \<and> messages s2 = messages s1
             \<and> (alerts s1 = [] \<and> alerts s2 = []
                 \<or> alerts s1 = [''Email alert sent: '' @ alert_time e1]
                   \<and> alerts s2 = [''Email alert sent: '' @ alert_time e2]))"
proof -
  have start: "alerts (st (blocking_world c inputs)) = []"
    by (simp add: blocking_world_def initial_state_def)
  have alike: "alike_up_to_alert_time e1 e2 []
     (exec Blocking e1 Get_weather (blocking_world c inputs))
     (exec Blocking e2 Get_weather (blocking_world c inputs))"
    using alike_runs [OF assms, of "blocking_world c inputs"] start by simp
  show ?thesis
  proof (cases "exec Blocking e1 Get_weather (blocking_world c inputs) = Hangs")
    case True
    then have "exec Blocking e2 Get_weather (blocking_world c inputs) = Hangs"
      using alike by (auto simp: alike_up_to_alert_time_def)
    with True show ?thesis
      by (simp add: run_weather_emergency_system_def hangs_def)
  next
    case False
    then obtain path w1 w2 where
      r1: "exec Blocking e1 Get_weather (blocking_world c inputs) = Returns (path, w1)"
      and r2: "exec Blocking e2 Get_weather (blocking_world c inputs) = Returns (path, w2)"
      and same: "st w2 = (st w1)\<lparr>alerts := alerts (st w2)\<rparr>"
      and times: "alerts (st w1) = [] \<and> alerts (st w2) = []
          \<or> alerts (st w1) = [''Email alert sent: '' @ alert_time e1]
            \<and> alerts (st w2) = [''Email alert sent: '' @ alert_time e2]"
      using alike by (auto simp: alike_up_to_alert_time_def)
    have "messages (st w2) = messages ((st w1)\<lparr>alerts := alerts (st w2)\<rparr>)"
      using same by simp
    then have trace: "messages (st w2) = messages (st w1)"
      by simp
    have "run_weather_emergency_system e1 c inputs = Returns (Some (st w1))"
      "run_weather_emergency_system e2 c inputs = Returns (Some (st w2))"
      by (simp_all add: run_weather_emergency_system_def r1 r2)
    then show ?thesis
      using same trace times by blast
  qed
qed

theorem reruns_alike_up_to_alert_time_witness:
  "\<exists>s1 s2.
     run_weather_emergency_system (sample_env ''High'' None ''2024-05-01 10:00:00'') ''Cairo'' []
       = Returns (Some s1)
   \<and> run_weather_emergency_system (sample_env ''High'' None ''2024-05-01 10:00:07'') ''Cairo'' []
       = Returns (Some s2)
   \<and> s2 = s1\<lparr>alerts := alerts s2\<rparr> \<and> messages s2 = messages s1
   \<and> alerts s1 = [''Email alert sent: 2024-05-01 10:00:00'']
   \<and> alerts s2 = [''Email alert sent: 2024-05-01 10:00:07'']"
proof -
  let ?e1 = "sample_env ''High'' None ''2024-05-01 10:00:00''"
  let ?e2 = "sample_env ''High'' None ''2024-05-01 10:00:07''"
  have agree: "fetch ?e1 = fetch ?e2" "llm ?e1 = llm ?e2" "log_io ?e1 = log_io ?e2"
    "smtp ?e1 = smtp ?e2"
    by (simp_all add: sample_env_def)
  have clocks: "alert_time ?e1 = ''2024-05-01 10:00:00''" "alert_time ?e2 = ''2024-05-01 10:00:07''"
    by (simp_all add: sample_env_def)
  have returns: "\<not> hangs (run_weather_emergency_system ?e1 ''Cairo'' [])"
    by code_simp
  have sent: "map_option alerts (returned (run_weather_emergency_system ?e1 ''Cairo'' []))
      = Some [''Email alert sent: 2024-05-01 10:00:00'']"
    by code_simp
  from reruns_alike_up_to_alert_time [OF agree, of "''Cairo''" "[]"] returns
  obtain s1 s2 where
    r1: "run_weather_emergency_system ?e1 ''Cairo'' [] = Returns (Some s1)"
    and r2: "run_weather_emergency_system ?e2 ''Cairo'' [] = Returns (Some s2)"
    and same: "s2 = s1\<lparr>alerts := alerts s2\<rparr>" "messages s2 = messages s1"
    and times: "alerts s1 = [] \<and> alerts s2 = []
        \<or> alerts s1 = [''Email alert sent: '' @ alert_time ?e1]
          \<and> alerts s2 = [''Email alert sent: '' @ alert_time ?e2]"
    by blast
  have "alerts s1 = [''Email alert sent: 2024-05-01 10:00:00'']"
    using sent r1 by (simp add: returned_def)
  then have "alerts s1 = [''Email alert sent: 2024-05-01 10:00:00'']
      \<and> alerts s2 = [''Email alert sent: 2024-05-01 10:00:07'']"
    using times clocks by simp
  then show ?thesis
    using r1 r2 same by blast
qed

end
